theory Spec2Isabelle
  imports Main
begin

section \<open>The SageMaker training entry point (sagemaker\_train.py)\<close>

text \<open>
  The development embeds the two functions of
  \<^verbatim>\<open>python/graphstorm/sagemaker/sagemaker_train.py\<close>:
  \<^verbatim>\<open>launch_train_task\<close> (with its nested thread body \<^verbatim>\<open>run\<close>) and
  \<^verbatim>\<open>run_train\<close>.

  Python exceptions, \<^verbatim>\<open>sys.exit\<close> and a call that blocks for ever are values of the
  type \<open>stop\<close>; a computation returns the list of the observable calls it made (its
  trace) together with either a \<open>stop\<close> or its result.
\<close>

subsection \<open>Exceptions and results\<close>

text \<open>
  The text of a \<^verbatim>\<open>RuntimeError\<close> is kept as the format and the value interpolated
  into it: \<^verbatim>\<open>f"Unsupported task type {task_type}"\<close> and
  \<^verbatim>\<open>f"Can not get host name of {hosts}"\<close>.
\<close>

datatype rt_message =
    Unsupported_task_type string
  | Can_not_get_host_name "string list"

datatype exn =
    RuntimeError rt_message
  | KeyError string
  | ValueError
  | IndexError
  | CalledProcessError int
  | OSError

subsection \<open>Rendering an integer in an f-string\<close>

text \<open>
  \<^verbatim>\<open>f"{n}"\<close> for a Python int is its decimal numeral, with a leading minus sign when
  negative.
\<close>

definition digit_char :: "nat \<Rightarrow> char" where
  "digit_char d = char_of (48 + d)"

fun str_nat :: "nat \<Rightarrow> string" where
  "str_nat n = (if n < 10 then [digit_char n] else str_nat (n div 10) @ [digit_char (n mod 10)])"

declare str_nat.simps [simp del]

definition str_int :: "int \<Rightarrow> string" where
  "str_int i = (if i < 0 then CHR ''-'' # str_nat (nat (- i)) else str_nat (nat i))"

text \<open>
  The number that a string of decimal digits denotes; it reads back what \<open>str_nat\<close>
  writes, and serves to show that different integers are written differently.
\<close>

definition digits_value :: "string \<Rightarrow> nat" where
  "digits_value cs = foldl (\<lambda>v c. 10 * v + (of_char c - 48)) 0 cs"

subsection \<open>The task-type constants\<close>

text \<open>
  \<^verbatim>\<open>launch_train_task\<close> compares \<^verbatim>\<open>task_type\<close> with six constants imported from
  \<^verbatim>\<open>graphstorm.config\<close>. That module is not part of the sources at hand, so the six
  strings are parameters of the model.
\<close>

record config =
  BUILTIN_TASK_NODE_CLASSIFICATION :: string
  BUILTIN_TASK_NODE_REGRESSION :: string
  BUILTIN_TASK_EDGE_CLASSIFICATION :: string
  BUILTIN_TASK_EDGE_REGRESSION :: string
  BUILTIN_TASK_LINK_PREDICTION :: string
  BUILTIN_TASK_MULTI_TASK :: string

definition builtin_tasks :: "config \<Rightarrow> string list" where
  "builtin_tasks cfg =
     [BUILTIN_TASK_NODE_CLASSIFICATION cfg, BUILTIN_TASK_NODE_REGRESSION cfg,
      BUILTIN_TASK_EDGE_CLASSIFICATION cfg, BUILTIN_TASK_EDGE_REGRESSION cfg,
      BUILTIN_TASK_LINK_PREDICTION cfg, BUILTIN_TASK_MULTI_TASK cfg]"

subsection \<open>launch\_train\_task\<close>

text \<open>Lines 83--98: the \<^verbatim>\<open>if\<close>/\<^verbatim>\<open>elif\<close> chain that chooses the module to run.\<close>

definition select_cmd :: "config \<Rightarrow> string \<Rightarrow> string option \<Rightarrow> exn + string" where
  "select_cmd cfg task_type custom_script =
     (if custom_script \<noteq> None then Inr ''graphstorm.run.launch''
      else if task_type = BUILTIN_TASK_NODE_CLASSIFICATION cfg
        then Inr ''graphstorm.run.gs_node_classification''
      else if task_type = BUILTIN_TASK_NODE_REGRESSION cfg
        then Inr ''graphstorm.run.gs_node_regression''
      else if task_type = BUILTIN_TASK_EDGE_CLASSIFICATION cfg
        then Inr ''graphstorm.run.gs_edge_classification''
      else if task_type = BUILTIN_TASK_EDGE_REGRESSION cfg
        then Inr ''graphstorm.run.gs_edge_regression''
      else if task_type = BUILTIN_TASK_LINK_PREDICTION cfg
        then Inr ''graphstorm.run.gs_link_prediction''
      else if task_type = BUILTIN_TASK_MULTI_TASK cfg
        then Inr ''graphstorm.run.gs_multi_task_learning''
      else Inl (RuntimeError (Unsupported_task_type task_type)))"

text \<open>
  Line 101: \<^verbatim>\<open>num_gpus if int(num_gpus) > 0 else 1\<close>. The docstrings of both functions
  give \<^verbatim>\<open>num_gpus\<close> the type int, on which \<^verbatim>\<open>int(...)\<close> is the identity.
\<close>

definition num_trainers :: "int \<Rightarrow> int" where
  "num_trainers num_gpus = (if num_gpus > 0 then num_gpus else 1)"

text \<open>
  Line 106 reads \<^verbatim>\<open>os.environ['LD_LIBRARY_PATH']\<close>; the environment is a map and a
  missing key raises \<^verbatim>\<open>KeyError\<close>.
\<close>

definition environ_get :: "(string \<rightharpoonup> string) \<Rightarrow> string \<Rightarrow> exn + string" where
  "environ_get environ k = (case environ k of None \<Rightarrow> Inl (KeyError k) | Some v \<Rightarrow> Inr v)"

text \<open>Lines 100--115: the command line, given the module and the library path.\<close>

definition assemble_cmd ::
  "string \<Rightarrow> string \<Rightarrow> int \<Rightarrow> string \<Rightarrow> string \<Rightarrow> string \<Rightarrow> string \<Rightarrow> string list \<Rightarrow>
   string option \<Rightarrow> string option \<Rightarrow> string list" where
  "assemble_cmd cmd ld_path num_gpus graph_config save_model_path ip_list yaml_path extra_args
     custom_script restore_model_path =
     [''python3'', ''-u'', ''-m'', cmd,
      ''--num-trainers'', str_int (num_trainers num_gpus),
      ''--num-servers'', ''1'',
      ''--num-samplers'', ''0'',
      ''--part-config'', graph_config,
      ''--ip-config'', ip_list,
      ''--extra-envs'', ''LD_LIBRARY_PATH='' @ ld_path @ '' '',
      ''--ssh-port'', ''22'',
      ''--do-nid-remap'', ''False'']
     @ (case custom_script of Some s \<Rightarrow> [s] | None \<Rightarrow> [])
     @ [''--cf'', yaml_path, ''--save-model-path'', save_model_path]
     @ (case restore_model_path of Some r \<Rightarrow> [''--restore-model-path'', r] | None \<Rightarrow> [])
     @ extra_args"

text \<open>
  The part of \<^verbatim>\<open>launch_train_task\<close> that can raise (lines 83--115): the result is the
  exception or the assembled \<^verbatim>\<open>launch_cmd\<close>. The thread that the function then starts
  is \<open>run\<close> below.
\<close>

definition launch_train_task ::
  "config \<Rightarrow> (string \<rightharpoonup> string) \<Rightarrow> string \<Rightarrow> int \<Rightarrow> string \<Rightarrow> string \<Rightarrow> string \<Rightarrow> string \<Rightarrow>
   string list \<Rightarrow> string option \<Rightarrow> string option \<Rightarrow> exn + string list" where
  "launch_train_task cfg environ task_type num_gpus graph_config save_model_path ip_list
     yaml_path extra_args custom_script restore_model_path =
     (case select_cmd cfg task_type custom_script of
        Inl e \<Rightarrow> Inl e
      | Inr cmd \<Rightarrow>
          (case environ_get environ ''LD_LIBRARY_PATH'' of
             Inl e \<Rightarrow> Inl e
           | Inr ld_path \<Rightarrow>
               Inr (assemble_cmd cmd ld_path num_gpus graph_config save_model_path ip_list
                      yaml_path extra_args custom_script restore_model_path)))"

subsection \<open>The supervising thread\<close>

text \<open>
  What \<^verbatim>\<open>subprocess.check_call(launch_cmd, shell=False)\<close> meets: the child ran and
  exited with a status, or the child could not be started or waited for (an
  \<^verbatim>\<open>OSError\<close>). Which of the two happens for a command is the operating system's
  answer, a parameter \<open>proc\<close> of the model.
\<close>

datatype child_outcome = Exited int | Spawn_fault

definition check_call :: "(string list \<Rightarrow> child_outcome) \<Rightarrow> string list \<Rightarrow> exn + int" where
  "check_call proc launch_cmd =
     (case proc launch_cmd of
        Exited k \<Rightarrow> if k = 0 then Inr 0 else Inl (CalledProcessError k)
      | Spawn_fault \<Rightarrow> Inl OSError)"

text \<open>\<^verbatim>\<open>queue.Queue()\<close> is unbounded: \<^verbatim>\<open>put\<close> appends and never blocks.\<close>

definition put :: "int list \<Rightarrow> int \<Rightarrow> int list" where
  "put q v = q @ [v]"

text \<open>Lines 118--126, the nested function \<^verbatim>\<open>run\<close>: the queue after the thread has ended.\<close>

definition run :: "(string list \<Rightarrow> child_outcome) \<Rightarrow> string list \<Rightarrow> int list \<Rightarrow> int list" where
  "run proc launch_cmd state_q =
     (case check_call proc launch_cmd of
        Inr _ \<Rightarrow> put state_q 0
      | Inl (CalledProcessError returncode) \<Rightarrow> put state_q returncode
      | Inl _ \<Rightarrow> put state_q (- 1))"

subsection \<open>Traces and computations\<close>

type_synonym conn = nat

datatype stop = Raised exn | Sys_exit int | Blocked

text \<open>
  The calls of \<^verbatim>\<open>run_train\<close> that act on the outside world, in the order of the
  source. The helpers imported from \<^verbatim>\<open>.utils\<close> (\<^verbatim>\<open>barrier_master\<close>,
  \<^verbatim>\<open>keep_alive\<close>, \<^verbatim>\<open>terminate_workers\<close>, \<^verbatim>\<open>barrier\<close>, \<^verbatim>\<open>wait_for_exit\<close>, the
  downloads and the upload) are not part of the sources at hand: a call of one of them
  is an event, and the call is taken to return. Informational logging is left out
  except for the four messages named below.
\<close>

datatype event =
    Makedirs string
  | Service_ssh_start
  | Sock_bind
  | Sock_listen nat
  | Sock_accept conn
  | Sock_connect bool
  | Log_trying_to_connect
  | Sleep_ms nat
  | Log_connected
  | Write_ip_list "string list"
  | Download_yaml_config
  | Download_graph
  | Download_model
  | Barrier_master
  | Keep_alive_start
  | Train_thread_start "string list"
  | Train_thread_join
  | State_q_get int
  | Print_exn exn
  | Task_end_set
  | Keep_alive_join
  | Terminate_workers
  | Log_master_end
  | Barrier_worker
  | Wait_for_exit
  | Log_worker_end
  | Sock_close
  | Log_task_failed
  | Upload_model_artifacts string string

type_synonym 'a comp = "event list \<times> (stop + 'a)"

definition ret :: "'a \<Rightarrow> 'a comp" where
  "ret x = ([], Inr x)"

definition emits :: "event list \<Rightarrow> unit comp" where
  "emits es = (es, Inr ())"

definition halt :: "stop \<Rightarrow> 'a comp" where
  "halt s = ([], Inl s)"

definition then_do :: "'a comp \<Rightarrow> ('a \<Rightarrow> 'b comp) \<Rightarrow> 'b comp" where
  "then_do m f =
     (case m of
        (tr, Inl s) \<Rightarrow> (tr, Inl s)
      | (tr, Inr x) \<Rightarrow> (case f x of (tr', r) \<Rightarrow> (tr @ tr', r)))"

subsection \<open>Small pieces of the Python library\<close>

text \<open>Truth value of \<^verbatim>\<open>None\<close> or a string: only a non-empty string is true.\<close>

definition truthy :: "string option \<Rightarrow> bool" where
  "truthy s = (case s of None \<Rightarrow> False | Some v \<Rightarrow> v \<noteq> [])"

definition rstrip_slash :: "string \<Rightarrow> string" where
  "rstrip_slash s = rev (dropWhile (\<lambda>c. c = CHR ''/'') (rev s))"

text \<open>\<^verbatim>\<open>os.path.join\<close> of two components on POSIX.\<close>

definition path_join :: "string \<Rightarrow> string \<Rightarrow> string" where
  "path_join a b =
     (if b \<noteq> [] \<and> hd b = CHR ''/'' then b
      else if a = [] \<or> last a = CHR ''/'' then a @ b
      else a @ ''/'' @ b)"

text \<open>\<^verbatim>\<open>list.index\<close>: the first position of the element, \<^verbatim>\<open>ValueError\<close> without one.\<close>

fun index_of :: "'a list \<Rightarrow> 'a \<Rightarrow> nat option" where
  "index_of [] x = None"
| "index_of (y # ys) x = (if y = x then Some 0 else map_option Suc (index_of ys x))"

text \<open>\<^verbatim>\<open>xs[i] = v\<close> raises \<^verbatim>\<open>IndexError\<close> outside the list.\<close>

definition setitem :: "'a list \<Rightarrow> nat \<Rightarrow> 'a \<Rightarrow> exn + 'a list" where
  "setitem xs i v = (if i < length xs then Inr (xs[i := v]) else Inl IndexError)"

text \<open>\<^verbatim>\<open>socket.gethostbyname\<close> over all hosts: the addresses, or \<open>None\<close> when one fails.\<close>

fun resolve_hosts :: "(string \<rightharpoonup> string) \<Rightarrow> string list \<Rightarrow> string list option" where
  "resolve_hosts g [] = Some []"
| "resolve_hosts g (h # hs) =
     (case g h of None \<Rightarrow> None | Some ip \<Rightarrow> map_option ((#) ip) (resolve_hosts g hs))"

text \<open>\<^verbatim>\<open>state_q.get()\<close> blocks on an empty queue.\<close>

definition queue_get :: "int list \<Rightarrow> int comp" where
  "queue_get q = (case q of [] \<Rightarrow> halt Blocked | v # _ \<Rightarrow> ([State_q_get v], Inr v))"

subsection \<open>run\_train: inputs\<close>

record train_env =
  hosts :: "string list"
  current_host :: string
  job_name :: string

text \<open>
  The parsed command line. \<^verbatim>\<open>sm_dist_env\<close> is a JSON text in the source; the model
  holds what \<^verbatim>\<open>json.loads\<close> returns for it.
\<close>

record args =
  task_type :: string
  graph_name :: string
  graph_data_s3 :: string
  train_yaml_s3 :: string
  model_artifact_s3 :: "string option"
  model_checkpoint_to_load :: "string option"
  custom_script :: "string option"
  data_path :: string
  num_gpus :: int
  sm_dist_env :: train_env
  master_addr :: string
  region :: string
  log_level :: string

text \<open>
  What the surroundings answer: the process environment, name resolution, the
  connections that arrive at the master's listening socket (none left means
  \<^verbatim>\<open>accept\<close> blocks), whether the worker's k-th \<^verbatim>\<open>connect\<close> succeeds, the fate of
  the child process, the file system, and the paths the two downloads return.
\<close>

record world =
  environ :: "string \<rightharpoonup> string"
  gethostbyname :: "string \<rightharpoonup> string"
  incoming :: "conn list"
  connect_ok :: "nat \<Rightarrow> bool"
  proc :: "string list \<Rightarrow> child_outcome"
  path_exists :: "string \<Rightarrow> bool"
  yaml_config :: string
  graph_config :: string

subsection \<open>run\_train: connecting (lines 210--231)\<close>

text \<open>
  The master's loop \<^verbatim>\<open>for i in range(1, world_size)\<close>: one \<^verbatim>\<open>accept\<close> per index, the
  connection stored at that index.
\<close>

fun accept_loop :: "nat list \<Rightarrow> conn list \<Rightarrow> conn option list \<Rightarrow> (conn option list) comp" where
  "accept_loop [] inc client_list = ([], Inr client_list)"
| "accept_loop (i # is) [] client_list = ([], Inl Blocked)"
| "accept_loop (i # is) (client # inc) client_list =
     (case setitem client_list i (Some client) of
        Inl e \<Rightarrow> ([Sock_accept client], Inl (Raised e))
      | Inr cl \<Rightarrow> (case accept_loop is inc cl of (tr, r) \<Rightarrow> (Sock_accept client # tr, r)))"

definition master_listen :: "world \<Rightarrow> nat \<Rightarrow> (conn option list) comp" where
  "master_listen w world_size =
     then_do (emits [Sock_bind, Sock_listen world_size])
       (\<lambda>_. accept_loop [1..<world_size] (incoming w) (replicate world_size None))"

text \<open>
  The worker's loop \<^verbatim>\<open>for _ in range(30)\<close>: \<^verbatim>\<open>break\<close> on the first success, otherwise
  log and sleep ten seconds. The boolean tells whether the socket is connected when the
  loop is left; the source does not look at it.
\<close>

fun connect_loop :: "nat list \<Rightarrow> (nat \<Rightarrow> bool) \<Rightarrow> event list \<times> bool" where
  "connect_loop [] ok = ([], False)"
| "connect_loop (k # ks) ok =
     (if ok k then ([Sock_connect True], True)
      else (case connect_loop ks ok of
              (tr, c) \<Rightarrow> (Sock_connect False # Log_trying_to_connect # Sleep_ms 10000 # tr, c)))"

definition worker_connect :: "world \<Rightarrow> bool comp" where
  "worker_connect w =
     (case connect_loop [0..<30] (connect_ok w) of
        (tr, c) \<Rightarrow> (tr @ [Log_connected], Inr c))"

subsection \<open>run\_train: everything before the barrier (lines 160--261)\<close>

text \<open>The local variables that the rest of the function uses.\<close>

record ctx =
  host_rank :: nat
  world_size :: nat
  client_list :: "conn option list"
  connected :: bool
  cur_environ :: "string \<rightharpoonup> string"
  save_model_path :: string
  ip_list_path :: string
  yaml_path :: string
  graph_config_path :: string
  restore_model_path :: "string option"
  gs_model_artifact_s3 :: "string option"

definition prepare :: "args \<Rightarrow> world \<Rightarrow> ctx comp" where
  "prepare a w =
     (let restore = (if model_checkpoint_to_load a \<noteq> None
                     then Some ''/tmp/gsgnn_model_checkpoint/'' else None);
          output_path = (if truthy (model_artifact_s3 a)
                         then ''/tmp/gsgnn_model/'' else ''/opt/ml/model'');
          hs = hosts (sm_dist_env a);
          n = length hs
      in
      then_do (emits ((case restore of Some p \<Rightarrow> [Makedirs p] | None \<Rightarrow> [])
                      @ [Makedirs output_path, Service_ssh_start]))
      (\<lambda>_. case index_of hs (current_host (sm_dist_env a)) of
          None \<Rightarrow> halt (Raised ValueError)
        | Some rank \<Rightarrow>
          (case resolve_hosts (gethostbyname w) hs of
             None \<Rightarrow> halt (Raised (RuntimeError (Can_not_get_host_name hs)))
           | Some ips \<Rightarrow>
             then_do (if rank = 0
                      then then_do (master_listen w n) (\<lambda>cl. ret (cl, False))
                      else then_do (worker_connect w) (\<lambda>c. ret ([], c)))
             (\<lambda>(cl, c).
               then_do (emits ([Write_ip_list ips, Download_yaml_config, Download_graph]
                               @ (if model_checkpoint_to_load a \<noteq> None
                                  then [Download_model] else [])))
               (\<lambda>_. ret \<lparr>host_rank = rank, world_size = n, client_list = cl, connected = c,
                         cur_environ = (environ w)(''WORLD_SIZE'' \<mapsto> str_nat n),
                         save_model_path = path_join output_path ''model_checkpoint'',
                         ip_list_path = path_join (data_path a) ''ip_list.txt'',
                         yaml_path = yaml_config w,
                         graph_config_path = graph_config w,
                         restore_model_path = restore,
                         gs_model_artifact_s3 =
                           (if truthy (model_artifact_s3 a)
                            then map_option rstrip_slash (model_artifact_s3 a)
                            else None)\<rparr>)))))"

subsection \<open>run\_train: the two branches and the end (lines 263--314)\<close>

text \<open>The body of the \<^verbatim>\<open>try\<close> statement, lines 276--288.\<close>

definition try_body :: "config \<Rightarrow> args \<Rightarrow> string list \<Rightarrow> world \<Rightarrow> ctx \<Rightarrow> int comp" where
  "try_body cfg a unknownargs w c =
     (case launch_train_task cfg (cur_environ c) (task_type a) (num_gpus a)
             (graph_config_path c) (save_model_path c) (ip_list_path c) (yaml_path c)
             unknownargs (custom_script a) (restore_model_path c) of
        Inl e \<Rightarrow> halt (Raised e)
      | Inr launch_cmd \<Rightarrow>
          then_do (emits [Train_thread_start launch_cmd, Sleep_ms 200, Train_thread_join])
            (\<lambda>_. queue_get (run (proc w) launch_cmd [])))"

text \<open>
  Lines 289--291, \<^verbatim>\<open>except RuntimeError as e\<close>: a \<^verbatim>\<open>RuntimeError\<close> is printed and
  replaced by the value \<open>-1\<close>; anything else passes through.
\<close>

definition except_RuntimeError :: "int comp \<Rightarrow> int comp" where
  "except_RuntimeError m =
     (case m of
        (tr, Inl (Raised (RuntimeError msg))) \<Rightarrow> (tr @ [Print_exn (RuntimeError msg)], Inr (- 1))
      | _ \<Rightarrow> m)"

text \<open>Lines 264--297; the result is \<^verbatim>\<open>err_code\<close>.\<close>

definition master_branch :: "config \<Rightarrow> args \<Rightarrow> string list \<Rightarrow> world \<Rightarrow> ctx \<Rightarrow> int comp" where
  "master_branch cfg a unknownargs w c =
     then_do (emits [Barrier_master, Keep_alive_start])
     (\<lambda>_. then_do (except_RuntimeError (try_body cfg a unknownargs w c))
     (\<lambda>err_code. then_do (emits [Task_end_set, Keep_alive_join, Terminate_workers, Log_master_end])
     (\<lambda>_. ret err_code)))"

text \<open>Lines 298--303; \<^verbatim>\<open>err_code\<close> keeps its initial value 0.\<close>

definition worker_branch :: "int comp" where
  "worker_branch = then_do (emits [Barrier_worker, Wait_for_exit, Log_worker_end]) (\<lambda>_. ret 0)"

text \<open>
  Lines 305--314. The test \<^verbatim>\<open>gs_model_artifact_s3 and os.path.exists(save_model_path)\<close>
  is true for a non-empty string whose path exists.
\<close>

definition finish :: "world \<Rightarrow> ctx \<Rightarrow> int \<Rightarrow> unit comp" where
  "finish w c err_code =
     then_do (emits [Sock_close])
     (\<lambda>_. if err_code \<noteq> 0 then then_do (emits [Log_task_failed]) (\<lambda>_. halt (Sys_exit (- 1)))
          else (case gs_model_artifact_s3 c of
                  None \<Rightarrow> ret ()
                | Some dest \<Rightarrow>
                    if dest \<noteq> [] \<and> path_exists w (save_model_path c)
                    then emits [Upload_model_artifacts dest (save_model_path c)]
                    else ret ()))"

definition branch :: "config \<Rightarrow> args \<Rightarrow> string list \<Rightarrow> world \<Rightarrow> ctx \<Rightarrow> int comp" where
  "branch cfg a unknownargs w c =
     (if host_rank c = 0 then master_branch cfg a unknownargs w c else worker_branch)"

definition run_train :: "config \<Rightarrow> args \<Rightarrow> string list \<Rightarrow> world \<Rightarrow> unit comp" where
  "run_train cfg a unknownargs w =
     then_do (prepare a w)
     (\<lambda>c. then_do (branch cfg a unknownargs w c)
     (\<lambda>err_code. finish w c err_code))"

text \<open>
  The status with which the interpreter ends (POSIX): 0 when \<^verbatim>\<open>run_train\<close> returns,
  the low byte of the argument of \<^verbatim>\<open>sys.exit\<close>, 1 for an exception that nobody
  caught; no status while a call blocks.
\<close>

definition exit_status :: "unit comp \<Rightarrow> int option" where
  "exit_status m =
     (case snd m of
        Inr _ \<Rightarrow> Some 0
      | Inl (Sys_exit k) \<Rightarrow> Some (k mod 256)
      | Inl (Raised e) \<Rightarrow> Some 1
      | Inl Blocked \<Rightarrow> None)"

text \<open>The call of \<^verbatim>\<open>launch_train_task\<close> at lines 277--286, with its arguments.\<close>

abbreviation launch_of :: "config \<Rightarrow> args \<Rightarrow> string list \<Rightarrow> ctx \<Rightarrow> exn + string list" where
  "launch_of cfg a u c \<equiv>
     launch_train_task cfg (cur_environ c) (task_type a) (num_gpus a) (graph_config_path c)
       (save_model_path c) (ip_list_path c) (yaml_path c) u (custom_script a)
       (restore_model_path c)"

subsection \<open>Reading traces\<close>

text \<open>The events that the code before the barrier can produce.\<close>

fun is_setup :: "event \<Rightarrow> bool" where
  "is_setup (Makedirs p) = True"
| "is_setup Service_ssh_start = True"
| "is_setup Sock_bind = True"
| "is_setup (Sock_listen n) = True"
| "is_setup (Sock_accept c) = True"
| "is_setup (Sock_connect b) = True"
| "is_setup Log_trying_to_connect = True"
| "is_setup (Sleep_ms n) = True"
| "is_setup Log_connected = True"
| "is_setup (Write_ip_list ips) = True"
| "is_setup Download_yaml_config = True"
| "is_setup Download_graph = True"
| "is_setup Download_model = True"
| "is_setup e = False"

text \<open>Recognisers for the events that carry a value.\<close>

fun is_state_q_get :: "event \<Rightarrow> bool" where
  "is_state_q_get (State_q_get v) = True"
| "is_state_q_get e = False"

fun is_train_thread_start :: "event \<Rightarrow> bool" where
  "is_train_thread_start (Train_thread_start cmd) = True"
| "is_train_thread_start e = False"

fun is_upload :: "event \<Rightarrow> bool" where
  "is_upload (Upload_model_artifacts d p) = True"
| "is_upload e = False"

fun is_accept :: "event \<Rightarrow> bool" where
  "is_accept (Sock_accept c) = True"
| "is_accept e = False"

text \<open>
  \<open>not_before Q P tr\<close>: in the trace no \<open>Q\<close>-event stands before the first
  \<open>P\<close>-event (so a \<open>Q\<close>-event is always preceded by a \<open>P\<close>-event).
  \<open>never_after P Q tr\<close>: no \<open>P\<close>-event stands at or after the first \<open>Q\<close>-event.
\<close>

definition not_before :: "(event \<Rightarrow> bool) \<Rightarrow> (event \<Rightarrow> bool) \<Rightarrow> event list \<Rightarrow> bool" where
  "not_before Q P tr = list_all (\<lambda>e. \<not> Q e) (takeWhile (\<lambda>e. \<not> P e) tr)"

definition never_after :: "(event \<Rightarrow> bool) \<Rightarrow> (event \<Rightarrow> bool) \<Rightarrow> event list \<Rightarrow> bool" where
  "never_after P Q tr = list_all (\<lambda>e. \<not> P e) (dropWhile (\<lambda>e. \<not> Q e) tr)"

text \<open>
  The order of the master's teardown calls in a trace, and of the read of the result
  queue relative to them.
\<close>

definition teardown_in_order :: "event list \<Rightarrow> bool" where
  "teardown_in_order tr \<longleftrightarrow>
     not_before (\<lambda>e. e = Terminate_workers) (\<lambda>e. e = Task_end_set) tr \<and>
     not_before (\<lambda>e. e = Terminate_workers) (\<lambda>e. e = Keep_alive_join) tr \<and>
     not_before (\<lambda>e. e = Keep_alive_join) (\<lambda>e. e = Task_end_set) tr \<and>
     not_before (\<lambda>e. e = Sock_close) (\<lambda>e. e = Terminate_workers) tr \<and>
     never_after is_state_q_get (\<lambda>e. e = Terminate_workers) tr \<and>
     (if list_ex is_train_thread_start tr
      then not_before (\<lambda>e. e = Terminate_workers) is_state_q_get tr else True)"

subsection \<open>A cluster of three hosts\<close>

text \<open>
  Concrete inputs on which the theorems below are instantiated: hosts
  \<^verbatim>\<open>algo-1\<close> (the master), \<^verbatim>\<open>algo-2\<close> and \<^verbatim>\<open>algo-3\<close>, a node classification
  task with an S3 destination for the model, and a child process that exits with
  status 1.
\<close>

definition example_config :: config where
  "example_config =
     \<lparr>BUILTIN_TASK_NODE_CLASSIFICATION = ''node_classification'',
      BUILTIN_TASK_NODE_REGRESSION = ''node_regression'',
      BUILTIN_TASK_EDGE_CLASSIFICATION = ''edge_classification'',
      BUILTIN_TASK_EDGE_REGRESSION = ''edge_regression'',
      BUILTIN_TASK_LINK_PREDICTION = ''link_prediction'',
      BUILTIN_TASK_MULTI_TASK = ''multi_task''\<rparr>"

definition example_env :: train_env where
  "example_env =
     \<lparr>hosts = [''algo-1'', ''algo-2'', ''algo-3''], current_host = ''algo-1'',
      job_name = ''job-42''\<rparr>"

definition example_args :: args where
  "example_args =
     \<lparr>task_type = ''node_classification'', graph_name = ''g'', graph_data_s3 = ''s3://in/g'',
      train_yaml_s3 = ''s3://in/y.yaml'', model_artifact_s3 = Some ''s3://out/'',
      model_checkpoint_to_load = None, custom_script = None, data_path = ''/data'',
      num_gpus = 4, sm_dist_env = example_env, master_addr = ''10.0.0.1'',
      region = ''us-east-1'', log_level = ''info''\<rparr>"

definition example_world :: world where
  "example_world =
     \<lparr>environ = [''LD_LIBRARY_PATH'' \<mapsto> ''/usr/lib''],
      gethostbyname = [''algo-1'' \<mapsto> ''10.0.0.1'', ''algo-2'' \<mapsto> ''10.0.0.2'',
                       ''algo-3'' \<mapsto> ''10.0.0.3''],
      incoming = [7, 8], connect_ok = (\<lambda>k. k = 2), proc = (\<lambda>cmd. Exited 1),
      path_exists = (\<lambda>p. True), yaml_config = ''/data/y.yaml'',
      graph_config = ''/data/g.json''\<rparr>"

section \<open>Properties\<close>

subsection \<open>Auxiliary facts\<close>

lemma select_cmd_custom:
  "cs \<noteq> None \<Longrightarrow> select_cmd cfg tt cs = Inr ''graphstorm.run.launch''"
  by (simp add: select_cmd_def)

lemma select_cmd_error_iff:
  "(\<exists>e. select_cmd cfg tt cs = Inl e) \<longleftrightarrow> cs = None \<and> tt \<notin> set (builtin_tasks cfg)"
  by (auto simp add: select_cmd_def builtin_tasks_def)

lemma accept_loop_setup: "list_all is_setup (fst (accept_loop ks inc cl))"
  by (induction ks inc cl rule: accept_loop.induct) (auto split: sum.splits prod.splits)

lemma connect_loop_setup: "list_all is_setup (fst (connect_loop ks ok))"
  by (induction ks ok rule: connect_loop.induct) (auto split: prod.splits)

lemma accept_loop_upt:
  "length cl = n \<Longrightarrow> i \<le> n \<Longrightarrow> n - i \<le> length inc \<Longrightarrow>
   accept_loop [i..<n] inc cl =
     (map Sock_accept (take (n - i) inc), Inr (take i cl @ map Some (take (n - i) inc)))"
proof (induction "n - i" arbitrary: i inc cl)
  case 0
  then show ?case by simp
next
  case (Suc k)
  then have lt: "i < n" by linarith
  from Suc obtain c inc' where inc: "inc = c # inc'" by (cases inc) auto
  have k: "k = n - Suc i" using Suc.hyps(2) by linarith
  have len: "length (cl[i := Some c]) = n" using Suc.prems by simp
  have le: "n - Suc i \<le> length inc'" using Suc.prems inc lt by simp
  have ih: "accept_loop [Suc i..<n] inc' (cl[i := Some c]) =
     (map Sock_accept (take (n - Suc i) inc'),
      Inr (take (Suc i) (cl[i := Some c]) @ map Some (take (n - Suc i) inc')))"
    using Suc.hyps(1) [OF k len _ le] lt by simp
  have tk: "take (Suc i) (cl[i := Some c]) = take i cl @ [Some c]"
    using lt Suc.prems(1) by (simp add: take_Suc_conv_app_nth)
  have sp: "n - i = Suc (n - Suc i)" using lt by simp
  show ?case
    using lt Suc.prems(1)
    by (simp add: upt_conv_Cons inc setitem_def ih tk sp)
qed

lemma accept_loop_blocked:
  "length cl = n \<Longrightarrow> i \<le> n \<Longrightarrow> length inc < n - i \<Longrightarrow>
   snd (accept_loop [i..<n] inc cl) = Inl Blocked"
proof (induction "n - i" arbitrary: i inc cl)
  case 0
  then show ?case by simp
next
  case (Suc k)
  then have lt: "i < n" by linarith
  have k: "k = n - Suc i" using Suc.hyps(2) by linarith
  show ?case
  proof (cases inc)
    case Nil
    then show ?thesis using lt by (simp add: upt_conv_Cons)
  next
    case (Cons c inc')
    have len: "length (cl[i := Some c]) = n" using Suc.prems by simp
    have "snd (accept_loop [Suc i..<n] inc' (cl[i := Some c])) = Inl Blocked"
      using Suc.hyps(1) [OF k len] lt Suc.prems Cons by simp
    then show ?thesis
      using lt Suc.prems(1) Cons
      by (auto simp add: upt_conv_Cons setitem_def split: prod.splits)
  qed
qed

lemma index_of_Some:
  "index_of xs x = Some r \<Longrightarrow> r < length xs \<and> xs ! r = x \<and> (\<forall>j<r. xs ! j \<noteq> x)"
proof (induction xs arbitrary: r)
  case Nil
  then show ?case by simp
next
  case (Cons y ys)
  show ?case
  proof (cases "y = x")
    case True
    with Cons.prems show ?thesis by simp
  next
    case False
    with Cons.prems obtain r' where r: "index_of ys x = Some r'" "r = Suc r'" by auto
    from Cons.IH [OF r(1)] False r(2) show ?thesis
      by (auto simp add: nth_Cons split: nat.splits)
  qed
qed

lemma index_of_None: "index_of xs x = None \<longleftrightarrow> x \<notin> set xs"
  by (induction xs) auto

lemma then_do_emits: "then_do (emits es) f = (es @ fst (f ()), snd (f ()))"
  by (simp add: then_do_def emits_def split: prod.splits)

lemma fst_then_do:
  "fst (then_do m f) = fst m @ (case snd m of Inl s \<Rightarrow> [] | Inr x \<Rightarrow> fst (f x))"
  by (simp add: then_do_def split: prod.splits sum.splits)

lemma snd_then_do:
  "snd (then_do m f) = (case snd m of Inl s \<Rightarrow> Inl s | Inr x \<Rightarrow> snd (f x))"
  by (simp add: then_do_def split: prod.splits sum.splits)

lemma master_listen_setup: "list_all is_setup (fst (master_listen w n))"
  by (simp add: master_listen_def then_do_emits accept_loop_setup)

lemma worker_connect_setup: "list_all is_setup (fst (worker_connect w))"
  using connect_loop_setup [of "[0..<30]" "connect_ok w"]
  by (auto simp add: worker_connect_def split: prod.splits)

lemma prepare_setup: "list_all is_setup (fst (prepare a w))"
  using master_listen_setup [of w "length (hosts (sm_dist_env a))"] worker_connect_setup [of w]
  by (auto simp add: prepare_def Let_def then_do_emits fst_then_do halt_def ret_def emits_def
      split: option.splits sum.splits prod.splits)

lemma queue_get_run:
  "queue_get (run pr cmd []) =
     ([State_q_get (case pr cmd of Exited k \<Rightarrow> k | Spawn_fault \<Rightarrow> - 1)],
      Inr (case pr cmd of Exited k \<Rightarrow> k | Spawn_fault \<Rightarrow> - 1))"
  by (simp add: queue_get_def run_def check_call_def put_def split: child_outcome.split)

lemma master_branch_launched:
  assumes "launch_of cfg a u c = Inr cmd"
  shows "master_branch cfg a u w c =
     ([Barrier_master, Keep_alive_start, Train_thread_start cmd, Sleep_ms 200, Train_thread_join,
       State_q_get (case proc w cmd of Exited k \<Rightarrow> k | Spawn_fault \<Rightarrow> - 1),
       Task_end_set, Keep_alive_join, Terminate_workers, Log_master_end],
      Inr (case proc w cmd of Exited k \<Rightarrow> k | Spawn_fault \<Rightarrow> - 1))"
  using assms
  by (simp add: master_branch_def try_body_def then_do_emits queue_get_run
      except_RuntimeError_def then_do_def emits_def ret_def)

lemma master_branch_runtime_error:
  assumes "launch_of cfg a u c = Inl (RuntimeError msg)"
  shows "master_branch cfg a u w c =
     ([Barrier_master, Keep_alive_start, Print_exn (RuntimeError msg),
       Task_end_set, Keep_alive_join, Terminate_workers, Log_master_end],
      Inr (- 1))"
  using assms
  by (simp add: master_branch_def try_body_def halt_def
      except_RuntimeError_def then_do_def emits_def ret_def)

lemma master_branch_propagates:
  assumes "launch_of cfg a u c = Inl e" and "\<forall>msg. e \<noteq> RuntimeError msg"
  shows "master_branch cfg a u w c = ([Barrier_master, Keep_alive_start], Inl (Raised e))"
  using assms
  by (cases e) (simp_all add: master_branch_def try_body_def halt_def
      except_RuntimeError_def then_do_def emits_def ret_def)

lemma worker_branch_eq:
  "worker_branch = ([Barrier_worker, Wait_for_exit, Log_worker_end], Inr 0)"
  by (simp add: worker_branch_def then_do_def emits_def ret_def)

lemma run_train_prepare_stops:
  "prepare a w = (tr0, Inl s) \<Longrightarrow> run_train cfg a u w = (tr0, Inl s)"
  by (simp add: run_train_def then_do_def)

lemma run_train_branch_stops:
  "prepare a w = (tr0, Inr c) \<Longrightarrow> branch cfg a u w c = (tr1, Inl s) \<Longrightarrow>
   run_train cfg a u w = (tr0 @ tr1, Inl s)"
  by (simp add: run_train_def then_do_def)

lemma run_train_finishes:
  "prepare a w = (tr0, Inr c) \<Longrightarrow> branch cfg a u w c = (tr1, Inr ec) \<Longrightarrow>
   run_train cfg a u w = (tr0 @ tr1 @ fst (finish w c ec), snd (finish w c ec))"
  by (simp add: run_train_def then_do_def split: prod.splits)

lemma finish_failure:
  "ec \<noteq> 0 \<Longrightarrow> finish w c ec = ([Sock_close, Log_task_failed], Inl (Sys_exit (- 1)))"
  by (simp add: finish_def then_do_def emits_def halt_def)

lemma finish_success:
  "finish w c 0 =
     (Sock_close #
        (case gs_model_artifact_s3 c of
           None \<Rightarrow> []
         | Some dest \<Rightarrow> if dest \<noteq> [] \<and> path_exists w (save_model_path c)
                       then [Upload_model_artifacts dest (save_model_path c)] else []),
      Inr ())"
  by (simp add: finish_def then_do_def emits_def ret_def split: option.splits)

lemma prepare_ctx:
  assumes "prepare a w = (tr0, Inr c)"
  shows "index_of (hosts (sm_dist_env a)) (current_host (sm_dist_env a)) = Some (host_rank c)"
    and "world_size c = length (hosts (sm_dist_env a))"
    and "cur_environ c = (environ w)(''WORLD_SIZE'' \<mapsto> str_nat (length (hosts (sm_dist_env a))))"
    and "save_model_path c =
           path_join (if truthy (model_artifact_s3 a) then ''/tmp/gsgnn_model/'' else ''/opt/ml/model'')
             ''model_checkpoint''"
    and "gs_model_artifact_s3 c =
           (if truthy (model_artifact_s3 a) then map_option rstrip_slash (model_artifact_s3 a) else None)"
  using assms
  by (auto simp add: prepare_def Let_def then_do_def emits_def halt_def ret_def
      split: option.splits sum.splits prod.splits if_splits)

lemma master_listen_returns:
  assumes "0 < n" and "n - 1 \<le> length (incoming w)"
  shows "master_listen w n =
     ([Sock_bind, Sock_listen n] @ map Sock_accept (take (n - 1) (incoming w)),
      Inr (None # map Some (take (n - 1) (incoming w))))"
proof -
  have "accept_loop [1..<n] (incoming w) (replicate n None) =
     (map Sock_accept (take (n - 1) (incoming w)),
      Inr (take 1 (replicate n None) @ map Some (take (n - 1) (incoming w))))"
    using assms by (intro accept_loop_upt) simp_all
  moreover have "take 1 (replicate n (None :: conn option)) = [None]"
    using assms(1) by (cases n) simp_all
  ultimately show ?thesis
    by (simp add: master_listen_def then_do_emits)
qed

lemma master_listen_blocked:
  assumes "0 < n" and "length (incoming w) < n - 1"
  shows "snd (master_listen w n) = Inl Blocked"
proof -
  have "snd (accept_loop [1..<n] (incoming w) (replicate n None)) = Inl Blocked"
    using assms by (intro accept_loop_blocked) simp_all
  then show ?thesis
    by (simp add: master_listen_def then_do_emits)
qed

lemma filter_accept_map [simp]: "filter is_accept (map Sock_accept xs) = map Sock_accept xs"
  by (induction xs) simp_all

lemma prepare_master:
  assumes "index_of (hosts (sm_dist_env a)) (current_host (sm_dist_env a)) = Some 0"
    and "resolve_hosts (gethostbyname w) (hosts (sm_dist_env a)) = Some ips"
  shows "prepare a w =
     then_do (emits ((if model_checkpoint_to_load a \<noteq> None
                      then [Makedirs ''/tmp/gsgnn_model_checkpoint/''] else [])
                     @ [Makedirs (if truthy (model_artifact_s3 a)
                                  then ''/tmp/gsgnn_model/'' else ''/opt/ml/model''),
                        Service_ssh_start]))
     (\<lambda>_. then_do (master_listen w (length (hosts (sm_dist_env a))))
     (\<lambda>cl. then_do (emits ([Write_ip_list ips, Download_yaml_config, Download_graph]
                            @ (if model_checkpoint_to_load a \<noteq> None then [Download_model] else [])))
     (\<lambda>_. ret \<lparr>host_rank = 0, world_size = length (hosts (sm_dist_env a)), client_list = cl,
               connected = False,
               cur_environ = (environ w)(''WORLD_SIZE'' \<mapsto> str_nat (length (hosts (sm_dist_env a)))),
               save_model_path = path_join (if truthy (model_artifact_s3 a)
                                  then ''/tmp/gsgnn_model/'' else ''/opt/ml/model'') ''model_checkpoint'',
               ip_list_path = path_join (data_path a) ''ip_list.txt'',
               yaml_path = yaml_config w,
               graph_config_path = graph_config w,
               restore_model_path = (if model_checkpoint_to_load a \<noteq> None
                     then Some ''/tmp/gsgnn_model_checkpoint/'' else None),
               gs_model_artifact_s3 =
                 (if truthy (model_artifact_s3 a)
                  then map_option rstrip_slash (model_artifact_s3 a) else None)\<rparr>)))"
  using assms
  by (simp add: prepare_def Let_def then_do_def emits_def ret_def split: prod.splits sum.splits)

lemma prepare_master_result:
  assumes "prepare a w = (tr0, Inr c)" and "host_rank c = 0"
  shows "\<exists>pre post trl. master_listen w (length (hosts (sm_dist_env a))) = (trl, Inr (client_list c))
           \<and> tr0 = pre @ trl @ post \<and> filter is_accept pre = [] \<and> filter is_accept post = []"
proof -
  have i0: "index_of (hosts (sm_dist_env a)) (current_host (sm_dist_env a)) = Some 0"
    using prepare_ctx(1) [OF assms(1)] assms(2) by simp
  obtain ips where ips: "resolve_hosts (gethostbyname w) (hosts (sm_dist_env a)) = Some ips"
    using assms(1) i0
    by (cases "resolve_hosts (gethostbyname w) (hosts (sm_dist_env a))")
       (auto simp add: prepare_def Let_def then_do_def emits_def halt_def)
  obtain trl rl where ml: "master_listen w (length (hosts (sm_dist_env a))) = (trl, rl)"
    by (cases "master_listen w (length (hosts (sm_dist_env a)))") auto
  let ?pre = "(if model_checkpoint_to_load a \<noteq> None
                      then [Makedirs ''/tmp/gsgnn_model_checkpoint/''] else [])
                     @ [Makedirs (if truthy (model_artifact_s3 a)
                                  then ''/tmp/gsgnn_model/'' else ''/opt/ml/model''),
                        Service_ssh_start]"
  let ?post = "[Write_ip_list ips, Download_yaml_config, Download_graph]
                 @ (if model_checkpoint_to_load a \<noteq> None then [Download_model] else [])"
  from assms(1) ml obtain b where b: "rl = Inr b"
    unfolding prepare_master [OF i0 ips]
    by (cases rl) (simp_all add: then_do_def emits_def ret_def)
  from assms(1) ml b have "tr0 = ?pre @ trl @ ?post" and "client_list c = b"
    unfolding prepare_master [OF i0 ips]
    by (auto simp add: then_do_def emits_def ret_def)
  moreover have "filter is_accept ?pre = []" and "filter is_accept ?post = []"
    by simp_all
  ultimately show ?thesis
    using ml b by blast
qed


lemma prepare_master_blocked:
  assumes "index_of (hosts (sm_dist_env a)) (current_host (sm_dist_env a)) = Some 0"
    and "resolve_hosts (gethostbyname w) (hosts (sm_dist_env a)) = Some ips"
    and "snd (master_listen w (length (hosts (sm_dist_env a)))) = Inl Blocked"
  shows "snd (prepare a w) = Inl Blocked"
  using assms(3) unfolding prepare_master [OF assms(1,2)]
  by (simp add: snd_then_do emits_def)

lemma prepare_master_returns:
  assumes "index_of (hosts (sm_dist_env a)) (current_host (sm_dist_env a)) = Some 0"
    and "resolve_hosts (gethostbyname w) (hosts (sm_dist_env a)) = Some ips"
    and "length (hosts (sm_dist_env a)) - 1 \<le> length (incoming w)"
  shows "\<exists>tr0 c. prepare a w = (tr0, Inr c) \<and> host_rank c = 0"
proof -
  have "0 < length (hosts (sm_dist_env a))"
    using assms(1) by (cases "hosts (sm_dist_env a)") simp_all
  from master_listen_returns [OF this assms(3)] show ?thesis
    unfolding prepare_master [OF assms(1,2)]
    by (simp add: then_do_def emits_def ret_def)
qed

lemma connect_loop_fails:
  "\<forall>k \<in> set ks. \<not> ok k \<Longrightarrow>
   connect_loop ks ok =
     (concat (map (\<lambda>k. [Sock_connect False, Log_trying_to_connect, Sleep_ms 10000]) ks), False)"
  by (induction ks) simp_all

lemma connect_loop_succeeds: "\<exists>k \<in> set ks. ok k \<Longrightarrow> snd (connect_loop ks ok) = True"
proof (induction ks)
  case Nil
  then show ?case by simp
next
  case (Cons k ks)
  show ?case
  proof (cases "ok k")
    case True
    then show ?thesis by simp
  next
    case False
    with Cons.prems have "\<exists>k \<in> set ks. ok k" by auto
    from Cons.IH [OF this] False show ?thesis
      by (auto split: prod.splits)
  qed
qed

lemma prepare_worker:
  assumes "index_of (hosts (sm_dist_env a)) (current_host (sm_dist_env a)) = Some r" and "r \<noteq> 0"
    and "resolve_hosts (gethostbyname w) (hosts (sm_dist_env a)) = Some ips"
  shows "\<exists>tr0 c. prepare a w = (tr0, Inr c) \<and> host_rank c = r \<and>
           connected c = snd (connect_loop [0..<30] (connect_ok w))"
  using assms
  by (simp add: prepare_def Let_def then_do_def emits_def ret_def worker_connect_def
      split: prod.splits)

lemma launch_of_environ:
  assumes "prepare a w = (tr0, Inr c)"
  shows "cur_environ c ''LD_LIBRARY_PATH'' = environ w ''LD_LIBRARY_PATH''"
  by (simp add: prepare_ctx(3) [OF assms])

lemma launch_of_Inr:
  assumes "prepare a w = (tr0, Inr c)" and "environ w ''LD_LIBRARY_PATH'' = Some ld"
    and "custom_script a \<noteq> None \<or> task_type a \<in> set (builtin_tasks cfg)"
  shows "\<exists>cmd. launch_of cfg a u c = Inr cmd"
proof -
  have "\<not> (\<exists>e. select_cmd cfg (task_type a) (custom_script a) = Inl e)"
    using assms(3) by (auto simp add: select_cmd_error_iff)
  then obtain m where "select_cmd cfg (task_type a) (custom_script a) = Inr m"
    by (cases "select_cmd cfg (task_type a) (custom_script a)") auto
  then show ?thesis
    using launch_of_environ [OF assms(1)] assms(2)
    by (simp add: launch_train_task_def environ_get_def)
qed

lemma launch_of_unsupported:
  assumes "custom_script a = None" and "task_type a \<notin> set (builtin_tasks cfg)"
  shows "launch_of cfg a u c = Inl (RuntimeError (Unsupported_task_type (task_type a)))"
  using assms by (simp add: launch_train_task_def select_cmd_def builtin_tasks_def)

text \<open>The whole run of a master whose workload was launched.\<close>

lemma master_run_launched:
  assumes "prepare a w = (tr0, Inr c)" and "host_rank c = 0" and "launch_of cfg a u c = Inr cmd"
  shows "run_train cfg a u w =
     (tr0 @ [Barrier_master, Keep_alive_start, Train_thread_start cmd, Sleep_ms 200,
             Train_thread_join,
             State_q_get (case proc w cmd of Exited k \<Rightarrow> k | Spawn_fault \<Rightarrow> - 1),
             Task_end_set, Keep_alive_join, Terminate_workers, Log_master_end]
          @ fst (finish w c (case proc w cmd of Exited k \<Rightarrow> k | Spawn_fault \<Rightarrow> - 1)),
      snd (finish w c (case proc w cmd of Exited k \<Rightarrow> k | Spawn_fault \<Rightarrow> - 1)))"
proof -
  have "branch cfg a u w c = master_branch cfg a u w c"
    using assms(2) by (simp add: branch_def)
  from run_train_finishes [OF assms(1) this [unfolded master_branch_launched [OF assms(3)]]]
  show ?thesis by simp
qed

lemma master_run_runtime_error:
  assumes "prepare a w = (tr0, Inr c)" and "host_rank c = 0"
    and "launch_of cfg a u c = Inl (RuntimeError msg)"
  shows "run_train cfg a u w =
     (tr0 @ [Barrier_master, Keep_alive_start, Print_exn (RuntimeError msg),
             Task_end_set, Keep_alive_join, Terminate_workers, Log_master_end,
             Sock_close, Log_task_failed],
      Inl (Sys_exit (- 1)))"
proof -
  have "branch cfg a u w c = master_branch cfg a u w c"
    using assms(2) by (simp add: branch_def)
  from run_train_finishes [OF assms(1) this [unfolded master_branch_runtime_error [OF assms(3)]]]
  show ?thesis by (simp add: finish_failure)
qed

lemma master_run_propagates:
  assumes "prepare a w = (tr0, Inr c)" and "host_rank c = 0"
    and "launch_of cfg a u c = Inl e" and "\<forall>msg. e \<noteq> RuntimeError msg"
  shows "run_train cfg a u w = (tr0 @ [Barrier_master, Keep_alive_start], Inl (Raised e))"
proof -
  have "branch cfg a u w c = master_branch cfg a u w c"
    using assms(2) by (simp add: branch_def)
  from run_train_branch_stops [OF assms(1) this [unfolded master_branch_propagates [OF assms(3,4)]]]
  show ?thesis by simp
qed

lemma worker_run:
  assumes "prepare a w = (tr0, Inr c)" and "host_rank c \<noteq> 0"
  shows "run_train cfg a u w =
     (tr0 @ [Barrier_worker, Wait_for_exit, Log_worker_end] @ fst (finish w c 0), Inr ())"
proof -
  have "branch cfg a u w c = ([Barrier_worker, Wait_for_exit, Log_worker_end], Inr 0)"
    using assms(2) by (simp add: branch_def worker_branch_eq)
  from run_train_finishes [OF assms(1) this]
  show ?thesis by (simp add: finish_success)
qed

lemma setup_not_mem: "list_all is_setup tr \<Longrightarrow> \<not> is_setup e \<Longrightarrow> e \<notin> set tr"
  by (auto simp add: list_all_iff)

lemma exit_status_simps:
  "exit_status (tr, Inr x) = Some 0"
  "exit_status (tr, Inl (Sys_exit k)) = Some (k mod 256)"
  "exit_status (tr, Inl (Raised e)) = Some 1"
  "exit_status (tr, Inl Blocked) = None"
  by (simp_all add: exit_status_def)

lemma prepare_ignores_proc: "prepare a (w\<lparr>proc := p\<rparr>) = prepare a w"
proof -
  have sel: "gethostbyname (w\<lparr>proc := p\<rparr>) = gethostbyname w"
    "environ (w\<lparr>proc := p\<rparr>) = environ w"
    "incoming (w\<lparr>proc := p\<rparr>) = incoming w"
    "connect_ok (w\<lparr>proc := p\<rparr>) = connect_ok w"
    "yaml_config (w\<lparr>proc := p\<rparr>) = yaml_config w"
    "graph_config (w\<lparr>proc := p\<rparr>) = graph_config w"
    by simp_all
  show ?thesis
    unfolding prepare_def master_listen_def worker_connect_def sel ..
qed

lemma finish_ignores_proc: "finish (w\<lparr>proc := p\<rparr>) c ec = finish w c ec"
  by (cases "gs_model_artifact_s3 c") (simp_all add: finish_def)

lemma setup_no_upload: "list_all is_setup tr \<Longrightarrow> \<not> list_ex is_upload tr"
  by (induction tr) (auto elim: is_setup.elims)

lemma branch_no_upload: "\<not> list_ex is_upload (fst (branch cfg a u w c))"
proof (cases "host_rank c = 0")
  case False
  then show ?thesis by (simp add: branch_def worker_branch_eq)
next
  case True
  show ?thesis
  proof (cases "launch_of cfg a u c")
    case (Inr cmd)
    show ?thesis
      using True by (simp add: branch_def master_branch_launched [OF Inr])
  next
    case (Inl e)
    show ?thesis
    proof (cases "\<exists>msg. e = RuntimeError msg")
      case True
      then obtain msg where "launch_of cfg a u c = Inl (RuntimeError msg)"
        using Inl by auto
      from master_branch_runtime_error [OF this] \<open>host_rank c = 0\<close> show ?thesis
        by (simp add: branch_def)
    next
      case False
      then have "\<forall>msg. e \<noteq> RuntimeError msg" by simp
      from master_branch_propagates [OF Inl this] \<open>host_rank c = 0\<close> show ?thesis
        by (simp add: branch_def)
    qed
  qed
qed

lemma finish_upload_iff:
  "list_ex is_upload (fst (finish w c ec)) \<longleftrightarrow>
     ec = 0 \<and> (\<exists>dest. gs_model_artifact_s3 c = Some dest \<and> dest \<noteq> []) \<and>
     path_exists w (save_model_path c)"
  by (cases "ec = 0") (auto simp add: finish_failure finish_success split: option.splits)

lemma finish_returns_iff: "snd (finish w c ec) = Inr () \<longleftrightarrow> ec = 0"
  by (cases "ec = 0") (simp_all add: finish_failure finish_success)

lemma run_train_cases:
  obtains (prepare_stops) tr0 s where "prepare a w = (tr0, Inl s)" "run_train cfg a u w = (tr0, Inl s)"
  | (branch_stops) tr0 c tr1 s where "prepare a w = (tr0, Inr c)" "branch cfg a u w c = (tr1, Inl s)"
      "run_train cfg a u w = (tr0 @ tr1, Inl s)"
  | (finishes) tr0 c tr1 ec where "prepare a w = (tr0, Inr c)" "branch cfg a u w c = (tr1, Inr ec)"
      "run_train cfg a u w = (tr0 @ tr1 @ fst (finish w c ec), snd (finish w c ec))"
proof (cases "prepare a w")
  case (Pair tr0 r0)
  show ?thesis
  proof (cases r0)
    case (Inl s)
    with Pair run_train_prepare_stops [of a w tr0 s cfg u] prepare_stops show ?thesis by simp
  next
    case (Inr c)
    show ?thesis
    proof (cases "branch cfg a u w c")
      case (Pair tr1 r1)
      show ?thesis
      proof (cases r1)
        case (Inl s)
        with Pair \<open>prepare a w = (tr0, r0)\<close> Inr
          run_train_branch_stops [of a w tr0 c cfg u tr1 s] branch_stops
        show ?thesis by simp
      next
        case ec: (Inr ec)
        with Pair \<open>prepare a w = (tr0, r0)\<close> Inr
          run_train_finishes [of a w tr0 c cfg u tr1 ec] finishes
        show ?thesis by simp
      qed
    qed
  qed
qed


lemma not_before_setup:
  assumes "list_all is_setup tr0" and "\<And>e. is_setup e \<Longrightarrow> \<not> P e" and "\<And>e. is_setup e \<Longrightarrow> \<not> Q e"
  shows "not_before Q P (tr0 @ tr) = not_before Q P tr"
  using assms(1)
proof (induction tr0)
  case Nil
  then show ?case by simp
next
  case (Cons e tr0)
  then show ?case using assms(2,3) by (simp add: not_before_def)
qed

lemma never_after_setup:
  assumes "list_all is_setup tr0" and "\<And>e. is_setup e \<Longrightarrow> \<not> Q e"
  shows "never_after P Q (tr0 @ tr) = never_after P Q tr"
  using assms(1)
proof (induction tr0)
  case Nil
  then show ?case by simp
next
  case (Cons e tr0)
  then show ?case using assms(2) by (simp add: never_after_def)
qed

lemma setup_not_get: "is_setup e \<Longrightarrow> \<not> is_state_q_get e"
  by (cases e) simp_all

lemma setup_no_get: "list_all is_setup tr \<Longrightarrow> \<not> list_ex is_state_q_get tr"
  by (auto simp add: list_ex_iff list_all_iff dest: setup_not_get)

lemma rstrip_slash_Nil [simp]: "rstrip_slash [] = []"
  by (simp add: rstrip_slash_def)

lemma save_path_tmp:
  "path_join ''/tmp/gsgnn_model/'' ''model_checkpoint'' = ''/tmp/gsgnn_model/model_checkpoint''"
  by (simp add: path_join_def)

lemma master_failed_workload:
  assumes "index_of (hosts (sm_dist_env a)) (current_host (sm_dist_env a)) = Some 0"
    and "resolve_hosts (gethostbyname w) (hosts (sm_dist_env a)) = Some ips"
    and "length (hosts (sm_dist_env a)) - 1 \<le> length (incoming w)"
    and "environ w ''LD_LIBRARY_PATH'' = Some ld"
    and "custom_script a \<noteq> None \<or> task_type a \<in> set (builtin_tasks cfg)"
    and "\<forall>cmd. proc w cmd = oc" and "oc \<noteq> Exited 0"
  shows "snd (run_train cfg a u w) = Inl (Sys_exit (- 1))"
proof -
  from prepare_master_returns [OF assms(1-3)]
  obtain tr0 c where p: "prepare a w = (tr0, Inr c)" and hr: "host_rank c = 0"
    by blast
  from launch_of_Inr [OF p assms(4,5)]
  obtain cmd where l: "launch_of cfg a u c = Inr cmd"
    by blast
  have "(case proc w cmd of Exited k \<Rightarrow> k | Spawn_fault \<Rightarrow> - 1) \<noteq> 0"
    using assms(6,7) by (cases oc) auto
  then show ?thesis
    by (simp add: master_run_launched [OF p hr l] finish_failure)
qed

lemma setup_no_start: "list_all is_setup tr \<Longrightarrow> \<not> list_ex is_train_thread_start tr"
  by (induction tr) (auto elim: is_setup.elims)

lemma teardown_in_order_setup:
  assumes "list_all is_setup tr0"
  shows "teardown_in_order (tr0 @ tr) = teardown_in_order tr"
proof -
  have nb: "not_before Q P (tr0 @ tr) = not_before Q P tr"
    if "\<And>e. is_setup e \<Longrightarrow> \<not> P e" "\<And>e. is_setup e \<Longrightarrow> \<not> Q e" for P Q
    using not_before_setup [OF assms that] .
  have na: "never_after P Q (tr0 @ tr) = never_after P Q tr"
    if "\<And>e. is_setup e \<Longrightarrow> \<not> Q e" for P Q
    using never_after_setup [OF assms that] .
  have 1: "not_before (\<lambda>e. e = Terminate_workers) (\<lambda>e. e = Task_end_set) (tr0 @ tr)
           = not_before (\<lambda>e. e = Terminate_workers) (\<lambda>e. e = Task_end_set) tr"
    by (rule nb) auto
  have 2: "not_before (\<lambda>e. e = Terminate_workers) (\<lambda>e. e = Keep_alive_join) (tr0 @ tr)
           = not_before (\<lambda>e. e = Terminate_workers) (\<lambda>e. e = Keep_alive_join) tr"
    by (rule nb) auto
  have 3: "not_before (\<lambda>e. e = Keep_alive_join) (\<lambda>e. e = Task_end_set) (tr0 @ tr)
           = not_before (\<lambda>e. e = Keep_alive_join) (\<lambda>e. e = Task_end_set) tr"
    by (rule nb) auto
  have 4: "not_before (\<lambda>e. e = Sock_close) (\<lambda>e. e = Terminate_workers) (tr0 @ tr)
           = not_before (\<lambda>e. e = Sock_close) (\<lambda>e. e = Terminate_workers) tr"
    by (rule nb) auto
  have 5: "never_after is_state_q_get (\<lambda>e. e = Terminate_workers) (tr0 @ tr)
           = never_after is_state_q_get (\<lambda>e. e = Terminate_workers) tr"
    by (rule na) auto
  have 6: "not_before (\<lambda>e. e = Terminate_workers) is_state_q_get (tr0 @ tr)
           = not_before (\<lambda>e. e = Terminate_workers) is_state_q_get tr"
    by (rule nb) (auto dest: setup_not_get)
  have 7: "list_ex is_train_thread_start (tr0 @ tr) = list_ex is_train_thread_start tr"
    using setup_no_start [OF assms] by simp
  show ?thesis
    unfolding teardown_in_order_def 1 2 3 4 5 6 7 ..
qed

lemma finish_trace:
  "fst (finish w c ec) = [Sock_close, Log_task_failed] \<or> fst (finish w c ec) = [Sock_close] \<or>
   (\<exists>d p. fst (finish w c ec) = [Sock_close, Upload_model_artifacts d p])"
  by (cases "ec = 0") (auto simp add: finish_failure finish_success split: option.splits)


lemma accept_loop_no_exit: "snd (accept_loop ks inc cl) \<noteq> Inl (Sys_exit k)"
  by (induction ks inc cl rule: accept_loop.induct) (auto split: sum.splits prod.splits)

lemma prepare_no_exit: "snd (prepare a w) \<noteq> Inl (Sys_exit k)"
  using accept_loop_no_exit [of "[1..<length (hosts (sm_dist_env a))]" "incoming w"
      "replicate (length (hosts (sm_dist_env a))) None" k]
  by (auto simp add: prepare_def Let_def snd_then_do halt_def ret_def emits_def
      master_listen_def worker_connect_def split: option.splits sum.splits prod.splits)

lemma master_run_shapes:
  assumes "index_of (hosts (sm_dist_env a)) (current_host (sm_dist_env a)) = Some 0"
  obtains
    (stopped) tr0 s where "run_train cfg a u w = (tr0, Inl s)" "list_all is_setup tr0"
      "\<forall>k. s \<noteq> Sys_exit k"
  | (propagated) tr0 e where
      "run_train cfg a u w = (tr0 @ [Barrier_master, Keep_alive_start], Inl (Raised e))"
      "list_all is_setup tr0"
  | (rejected) tr0 msg where
      "run_train cfg a u w =
         (tr0 @ [Barrier_master, Keep_alive_start, Print_exn (RuntimeError msg),
                 Task_end_set, Keep_alive_join, Terminate_workers, Log_master_end,
                 Sock_close, Log_task_failed],
          Inl (Sys_exit (- 1)))"
      "list_all is_setup tr0"
  | (launched) tr0 cmd v fin r where
      "run_train cfg a u w =
         (tr0 @ [Barrier_master, Keep_alive_start, Train_thread_start cmd, Sleep_ms 200,
                 Train_thread_join, State_q_get v,
                 Task_end_set, Keep_alive_join, Terminate_workers, Log_master_end] @ fin, r)"
      "list_all is_setup tr0"
      "fin = [Sock_close, Log_task_failed] \<or> fin = [Sock_close] \<or>
       (\<exists>d p. fin = [Sock_close, Upload_model_artifacts d p])"
proof (cases "prepare a w")
  case (Pair tr0 r0)
  have s: "list_all is_setup tr0"
    using prepare_setup [of a w] Pair by simp
  show ?thesis
  proof (cases r0)
    case (Inl st)
    have "\<forall>k. st \<noteq> Sys_exit k"
      using prepare_no_exit [of a w] Pair Inl by auto
    with stopped [OF run_train_prepare_stops s] Pair Inl show ?thesis
      by simp
  next
    case (Inr c)
    with Pair have p: "prepare a w = (tr0, Inr c)" by simp
    have hr: "host_rank c = 0"
      using prepare_ctx(1) [OF p] assms by simp
    show ?thesis
    proof (cases "launch_of cfg a u c")
      case l: (Inr cmd)
      from launched [OF master_run_launched [OF p hr l] s finish_trace] show ?thesis .
    next
      case l: (Inl e)
      show ?thesis
      proof (cases "\<exists>msg. e = RuntimeError msg")
        case True
        then obtain msg where "launch_of cfg a u c = Inl (RuntimeError msg)"
          using l by auto
        from rejected [OF master_run_runtime_error [OF p hr this] s] show ?thesis .
      next
        case False
        then have "\<forall>msg. e \<noteq> RuntimeError msg" by simp
        from propagated [OF master_run_propagates [OF p hr l this] s] show ?thesis .
      qed
    qed
  qed
qed

lemma of_char_digit_char: "d < 10 \<Longrightarrow> of_char (digit_char d) = (48 + d :: nat)"
  by (simp add: digit_char_def)

lemma digits_value_str_nat: "digits_value (str_nat n) = n"
proof (induction n rule: str_nat.induct)
  case (1 n)
  show ?case
  proof (cases "n < 10")
    case True
    then show ?thesis
      by (subst str_nat.simps) (simp add: digits_value_def of_char_digit_char)
  next
    case False
    from 1 [OF False] have "digits_value (str_nat (n div 10)) = n div 10" .
    then show ?thesis
      using False
      by (subst str_nat.simps) (simp add: digits_value_def of_char_digit_char)
  qed
qed

lemma str_nat_not_minus: "hd (str_nat n) \<noteq> CHR ''-'' \<and> str_nat n \<noteq> []"
proof (induction n rule: str_nat.induct)
  case (1 n)
  show ?case
  proof (cases "n < 10")
    case True
    have "of_char (digit_char n) \<noteq> (of_char CHR ''-'' :: nat)"
      using True by (simp add: of_char_digit_char)
    then have "digit_char n \<noteq> CHR ''-''" by auto
    then show ?thesis
      using True by (subst (1 2) str_nat.simps) simp
  next
    case False
    from 1 [OF False] show ?thesis
      using False by (subst (1 2) str_nat.simps) simp
  qed
qed

lemma str_int_inj: "str_int m = str_int n \<Longrightarrow> m = n"
proof -
  assume e: "str_int m = str_int n"
  have neg: "i < 0 \<Longrightarrow> hd (str_int i) = CHR ''-''" for i
    by (simp add: str_int_def)
  have pos: "\<not> i < 0 \<Longrightarrow> hd (str_int i) \<noteq> CHR ''-''" for i
    using str_nat_not_minus [of "nat i"] by (simp add: str_int_def)
  have same: "m < 0 \<longleftrightarrow> n < 0"
  proof
    assume "m < 0"
    then have "hd (str_int n) = CHR ''-''" using neg [of m] e by simp
    then show "n < 0" using pos [of n] by blast
  next
    assume "n < 0"
    then have "hd (str_int m) = CHR ''-''" using neg [of n] e by simp
    then show "m < 0" using pos [of m] by blast
  qed
  show "m = n"
  proof (cases "m < 0")
    case True
    with same e have "str_nat (nat (- m)) = str_nat (nat (- n))"
      by (simp add: str_int_def)
    then have "digits_value (str_nat (nat (- m))) = digits_value (str_nat (nat (- n)))"
      by simp
    then show ?thesis
      using True same by (simp add: digits_value_str_nat)
  next
    case False
    with same e have "str_nat (nat m) = str_nat (nat n)"
      by (simp add: str_int_def)
    then have "digits_value (str_nat (nat m)) = digits_value (str_nat (nat n))"
      by simp
    then show ?thesis
      using False same by (simp add: digits_value_str_nat)
  qed
qed

lemma str_int_1: "str_int 1 = ''1''"
  by code_simp

subsection \<open>The supervising thread delivers one result\<close>

text \<open>
  Claim C4. For every launch, the thread body \<^verbatim>\<open>run\<close> puts exactly one value on the
  result queue: 0 when the child exits with status 0, the child's return code when it
  exits with another status, and \<open>-1\<close> when supervision raises another exception. The
  queue grows by exactly one element.
\<close>

theorem run_puts_exactly_one_result:
  "run pr cmd q =
     q @ [case pr cmd of Exited k \<Rightarrow> (if k = 0 then 0 else k) | Spawn_fault \<Rightarrow> - 1]
   \<and> length (run pr cmd q) = Suc (length q)"
  by (simp add: run_def check_call_def put_def split: child_outcome.split)

subsection \<open>Choice of the command\<close>

text \<open>
  Claim C9. With a custom script the module is \<^verbatim>\<open>graphstorm.run.launch\<close> whatever the
  task type, and it stands at position 3 of the command line; \<^verbatim>\<open>launch_train_task\<close>
  raises a \<^verbatim>\<open>RuntimeError\<close> exactly when there is no custom script and the task type
  is none of the six builtin ones, and the error then is the one for an unsupported
  task type.
\<close>

theorem launch_train_task_cmd_choice:
  "(cs \<noteq> None \<longrightarrow>
      select_cmd cfg tt cs = Inr ''graphstorm.run.launch'' \<and>
      (\<forall>ld. env ''LD_LIBRARY_PATH'' = Some ld \<longrightarrow>
         (\<exists>launch_cmd.
            launch_train_task cfg env tt g gc smp ipl yp ea cs rmp = Inr launch_cmd \<and>
            launch_cmd ! 3 = ''graphstorm.run.launch''))) \<and>
   ((\<exists>msg. launch_train_task cfg env tt g gc smp ipl yp ea cs rmp = Inl (RuntimeError msg))
     \<longleftrightarrow> cs = None \<and> tt \<notin> set (builtin_tasks cfg)) \<and>
   (cs = None \<and> tt \<notin> set (builtin_tasks cfg) \<longrightarrow>
      launch_train_task cfg env tt g gc smp ipl yp ea cs rmp
        = Inl (RuntimeError (Unsupported_task_type tt)))"
proof -
  let ?l = "launch_train_task cfg env tt g gc smp ipl yp ea cs rmp"
  have a: "cs \<noteq> None \<Longrightarrow> env ''LD_LIBRARY_PATH'' = Some ld \<Longrightarrow>
           \<exists>launch_cmd. ?l = Inr launch_cmd \<and> launch_cmd ! 3 = ''graphstorm.run.launch''" for ld
    by (simp add: launch_train_task_def select_cmd_custom environ_get_def assemble_cmd_def)
  have b: "?l = Inl (RuntimeError (Unsupported_task_type tt))"
    if "cs = None" "tt \<notin> set (builtin_tasks cfg)"
    using that by (simp add: launch_train_task_def select_cmd_def builtin_tasks_def)
  have c: "cs = None \<and> tt \<notin> set (builtin_tasks cfg)" if "?l = Inl (RuntimeError msg)" for msg
  proof -
    from that have "\<exists>e. select_cmd cfg tt cs = Inl e"
      by (auto simp add: launch_train_task_def environ_get_def split: sum.splits option.splits)
    then show ?thesis using select_cmd_error_iff [of cfg tt cs] by blast
  qed
  show ?thesis using a b c select_cmd_custom by blast
qed

theorem launch_train_task_cmd_choice_witness:
  "(\<exists>launch_cmd.
      launch_train_task example_config (environ example_world) ''anything'' 4 ''g'' ''m'' ''i''
        ''y'' [] (Some ''train.py'') None = Inr launch_cmd \<and>
      launch_cmd ! 3 = ''graphstorm.run.launch'') \<and>
   launch_train_task example_config (environ example_world) ''anything'' 4 ''g'' ''m'' ''i''
     ''y'' [] None None = Inl (RuntimeError (Unsupported_task_type ''anything''))"
  using launch_train_task_cmd_choice [of "Some ''train.py''" example_config "''anything''"
      "environ example_world" 4 "''g''" "''m''" "''i''" "''y''" "[]" None]
    launch_train_task_cmd_choice [of None example_config "''anything''"
      "environ example_world" 4 "''g''" "''m''" "''i''" "''y''" "[]" None]
  by (simp add: example_config_def example_world_def builtin_tasks_def)

subsection \<open>The number of trainers\<close>

text \<open>
  Claim C10. Whenever \<^verbatim>\<open>launch_train_task\<close> assembles a command, the argument after
  \<^verbatim>\<open>--num-trainers\<close> is the decimal text of \<^verbatim>\<open>num_gpus\<close> when \<^verbatim>\<open>num_gpus > 0\<close> and the
  text \<^verbatim>\<open>1\<close> otherwise; every integer that is written so is positive, so the argument
  never denotes zero or a negative number.
\<close>

theorem num_trainers_argument:
  assumes "launch_train_task cfg env tt g gc smp ipl yp ea cs rmp = Inr launch_cmd"
  shows "launch_cmd ! 4 = ''--num-trainers'' \<and>
         launch_cmd ! 5 = (if g > 0 then str_int g else ''1'') \<and>
         (\<forall>n. launch_cmd ! 5 = str_int n \<longrightarrow> 0 < n)"
proof -
  have c: "launch_cmd ! 4 = ''--num-trainers''" "launch_cmd ! 5 = str_int (num_trainers g)"
    using assms
    by (auto simp add: launch_train_task_def assemble_cmd_def split: sum.splits)
  have p: "0 < num_trainers g" "str_int (num_trainers g) = (if g > 0 then str_int g else ''1'')"
    by (simp_all add: num_trainers_def str_int_1)
  have "0 < n" if "launch_cmd ! 5 = str_int n" for n
  proof -
    have "str_int (num_trainers g) = str_int n"
      by (rule trans [OF c(2) [symmetric] that])
    from str_int_inj [OF this] p(1) show ?thesis
      by (simp only:)
  qed
  then have "\<forall>n. launch_cmd ! 5 = str_int n \<longrightarrow> 0 < n"
    by blast
  with c(1) trans [OF c(2) p(2)] show ?thesis
    by (intro conjI)
qed

theorem num_trainers_argument_witness:
  "assemble_cmd ''graphstorm.run.launch'' ''/usr/lib'' (- 3) ''g'' ''m'' ''i'' ''y'' []
     (Some ''train.py'') None ! 5 = ''1'' \<and>
   assemble_cmd ''graphstorm.run.launch'' ''/usr/lib'' 4 ''g'' ''m'' ''i'' ''y'' []
     (Some ''train.py'') None ! 5 = ''4''"
proof -
  have l: "launch_train_task example_config (environ example_world) ''anything'' k ''g'' ''m''
             ''i'' ''y'' [] (Some ''train.py'') None
           = Inr (assemble_cmd ''graphstorm.run.launch'' ''/usr/lib'' k ''g'' ''m'' ''i'' ''y'' []
                    (Some ''train.py'') None)" for k
    by (simp add: launch_train_task_def select_cmd_def environ_get_def example_world_def)
  have "str_int 4 = ''4''"
    by code_simp
  with num_trainers_argument [OF l [of "- 3"]] num_trainers_argument [OF l [of 4]]
  show ?thesis
    by simp
qed

subsection \<open>Rank, world size and the master's accepts\<close>

text \<open>
  Claim C8. For a host list of length \<open>N \<ge> 2\<close> that holds the current host, the rank is
  the (first) index of the current host and the world size is \<open>N\<close>. When the rank is 0
  and the code before the barrier completes, the master has made exactly \<open>N - 1\<close> calls of
  \<^verbatim>\<open>accept\<close> and holds the accepted connections, in arrival order, in slots
  \<open>1 .. N - 1\<close> of \<^verbatim>\<open>client_list\<close> (slot 0 stays \<^verbatim>\<open>None\<close>). It does complete when the
  host names resolve and at least \<open>N - 1\<close> connections arrive; with fewer arrivals it
  blocks in \<^verbatim>\<open>accept\<close> and never reaches the barrier.
\<close>

theorem rank_world_size_accepts:
  assumes "hosts (sm_dist_env a) = hs" and "current_host (sm_dist_env a) = cur"
    and "2 \<le> length hs" and "cur \<in> set hs"
  shows
   "\<exists>r. index_of hs cur = Some r \<and> r < length hs \<and> hs ! r = cur \<and>
        (\<forall>tr0 c. prepare a w = (tr0, Inr c) \<longrightarrow>
            host_rank c = r \<and> world_size c = length hs \<and>
            (r = 0 \<longrightarrow>
               length hs - 1 \<le> length (incoming w) \<and>
               client_list c = None # map Some (take (length hs - 1) (incoming w)) \<and>
               filter is_accept tr0 = map Sock_accept (take (length hs - 1) (incoming w)) \<and>
               length (filter is_accept tr0) = length hs - 1)) \<and>
        (r = 0 \<and> resolve_hosts (gethostbyname w) hs \<noteq> None \<and>
           length hs - 1 \<le> length (incoming w) \<longrightarrow>
           (\<exists>tr0 c. prepare a w = (tr0, Inr c))) \<and>
        (r = 0 \<and> resolve_hosts (gethostbyname w) hs \<noteq> None \<and>
           length (incoming w) < length hs - 1 \<longrightarrow>
           snd (prepare a w) = Inl Blocked)"
proof -
  from assms(4) obtain r where r: "index_of hs cur = Some r"
    using index_of_None [of hs cur] by (cases "index_of hs cur") auto
  note rp = index_of_Some [OF r]
  have pos: "0 < length hs" using assms(3) by (cases hs) simp_all
  have A: "host_rank c = r \<and> world_size c = length hs \<and>
            (r = 0 \<longrightarrow>
               length hs - 1 \<le> length (incoming w) \<and>
               client_list c = None # map Some (take (length hs - 1) (incoming w)) \<and>
               filter is_accept tr0 = map Sock_accept (take (length hs - 1) (incoming w)) \<and>
               length (filter is_accept tr0) = length hs - 1)"
    if p: "prepare a w = (tr0, Inr c)" for tr0 c
  proof -
    have hr: "host_rank c = r"
      using prepare_ctx(1) [OF p] r assms(1,2) by simp
    have ws: "world_size c = length hs"
      using prepare_ctx(2) [OF p] assms(1) by simp
    have m: "length hs - 1 \<le> length (incoming w) \<and>
               client_list c = None # map Some (take (length hs - 1) (incoming w)) \<and>
               filter is_accept tr0 = map Sock_accept (take (length hs - 1) (incoming w)) \<and>
               length (filter is_accept tr0) = length hs - 1" if r0: "r = 0"
    proof -
      from prepare_master_result [OF p] hr r0 assms(1)
      obtain pre post trl where ml: "master_listen w (length hs) = (trl, Inr (client_list c))"
        and tr0: "tr0 = pre @ trl @ post"
        and fl: "filter is_accept pre = []" "filter is_accept post = []"
        by auto
      have enough: "length hs - 1 \<le> length (incoming w)"
      proof (rule ccontr)
        assume "\<not> length hs - 1 \<le> length (incoming w)"
        then have "snd (master_listen w (length hs)) = Inl Blocked"
          using master_listen_blocked [OF pos] by simp
        with ml show False by simp
      qed
      from master_listen_returns [OF pos enough] ml
      have trl: "trl = [Sock_bind, Sock_listen (length hs)]
                   @ map Sock_accept (take (length hs - 1) (incoming w))"
        and cl: "client_list c = None # map Some (take (length hs - 1) (incoming w))"
        by simp_all
      have "filter is_accept tr0 = map Sock_accept (take (length hs - 1) (incoming w))"
        using fl by (simp add: tr0 trl)
      moreover from this have "length (filter is_accept tr0) = length hs - 1"
        using enough by simp
      ultimately show ?thesis using enough cl by simp
    qed
    show ?thesis using hr ws m by simp
  qed
  have B: "\<exists>tr0 c. prepare a w = (tr0, Inr c)"
    if "r = 0" "resolve_hosts (gethostbyname w) hs \<noteq> None"
       "length hs - 1 \<le> length (incoming w)"
  proof -
    from that(2) obtain ips where "resolve_hosts (gethostbyname w) hs = Some ips" by auto
    with prepare_master_returns [of a w ips] r that assms(1,2) show ?thesis by auto
  qed
  have C: "snd (prepare a w) = Inl Blocked"
    if "r = 0" "resolve_hosts (gethostbyname w) hs \<noteq> None"
       "length (incoming w) < length hs - 1"
  proof -
    from that(2) obtain ips where "resolve_hosts (gethostbyname w) hs = Some ips" by auto
    with prepare_master_blocked [of a w ips] master_listen_blocked [OF pos that(3)]
      r that(1) assms(1,2) show ?thesis by simp
  qed
  show ?thesis
    using r rp A B C by blast
qed

theorem rank_world_size_accepts_witness:
  "\<exists>tr0 c. prepare example_args example_world = (tr0, Inr c) \<and> host_rank c = 0 \<and>
      world_size c = 3 \<and> client_list c = [None, Some 7, Some 8] \<and>
      filter is_accept tr0 = [Sock_accept 7, Sock_accept 8]"
proof -
  have h: "hosts (sm_dist_env example_args) = [''algo-1'', ''algo-2'', ''algo-3'']"
    "current_host (sm_dist_env example_args) = ''algo-1''"
    "2 \<le> length [''algo-1'', ''algo-2'', ''algo-3'']"
    "''algo-1'' \<in> set [''algo-1'', ''algo-2'', ''algo-3'']"
    by (simp_all add: example_args_def example_env_def)
  have i: "index_of [''algo-1'', ''algo-2'', ''algo-3''] ''algo-1'' = Some 0"
    by simp
  have g: "resolve_hosts (gethostbyname example_world) [''algo-1'', ''algo-2'', ''algo-3''] \<noteq> None"
    by (simp add: example_world_def)
  have n: "incoming example_world = [7, 8]"
    by (simp add: example_world_def)
  from rank_world_size_accepts [OF h, of example_world] i g n show ?thesis
    by auto
qed

subsection \<open>The exit status follows the workload\<close>

text \<open>
  Claim C1. On the master, once the workload has been launched (the hosts resolve, the
  workers connect, \<^verbatim>\<open>LD_LIBRARY_PATH\<close> is set and the task is supported), the end of
  the process follows the child's exit code \<open>K\<close>: for \<open>K = 0\<close> the error code is 0,
  \<^verbatim>\<open>run_train\<close> returns (after the upload test) and the status is 0; for \<open>K \<noteq> 0\<close> the
  error code is \<open>K\<close>, and for a failed supervision it is the sentinel \<open>-1\<close>, and in both
  cases the process leaves through \<^verbatim>\<open>sys.exit(-1)\<close>, a nonzero status.
\<close>

theorem exit_status_matches_workload:
  assumes "index_of (hosts (sm_dist_env a)) (current_host (sm_dist_env a)) = Some 0"
    and "resolve_hosts (gethostbyname w) (hosts (sm_dist_env a)) = Some ips"
    and "length (hosts (sm_dist_env a)) - 1 \<le> length (incoming w)"
    and "environ w ''LD_LIBRARY_PATH'' = Some ld"
    and "custom_script a \<noteq> None \<or> task_type a \<in> set (builtin_tasks cfg)"
    and "\<forall>cmd. proc w cmd = oc"
  shows "\<exists>tr0 c. prepare a w = (tr0, Inr c) \<and>
     (oc = Exited 0 \<longrightarrow>
        snd (branch cfg a u w c) = Inr 0 \<and>
        snd (run_train cfg a u w) = Inr () \<and>
        exit_status (run_train cfg a u w) = Some 0 \<and>
        Sock_close \<in> set (fst (run_train cfg a u w)) \<and>
        Log_task_failed \<notin> set (fst (run_train cfg a u w))) \<and>
     (\<forall>K. oc = Exited K \<and> K \<noteq> 0 \<longrightarrow>
        snd (branch cfg a u w c) = Inr K \<and>
        snd (run_train cfg a u w) = Inl (Sys_exit (- 1)) \<and>
        exit_status (run_train cfg a u w) = Some 255) \<and>
     (oc = Spawn_fault \<longrightarrow>
        snd (branch cfg a u w c) = Inr (- 1) \<and>
        snd (run_train cfg a u w) = Inl (Sys_exit (- 1)) \<and>
        exit_status (run_train cfg a u w) = Some 255)"
proof -
  from prepare_master_returns [OF assms(1-3)]
  obtain tr0 c where p: "prepare a w = (tr0, Inr c)" and hr: "host_rank c = 0"
    by blast
  from launch_of_Inr [OF p assms(4,5)]
  obtain cmd where l: "launch_of cfg a u c = Inr cmd"
    by blast
  have oc: "proc w cmd = oc"
    using assms(6) by simp
  note r = master_run_launched [OF p hr l, unfolded oc]
  have b: "branch cfg a u w c = master_branch cfg a u w c"
    using hr by (simp add: branch_def)
  note mb = master_branch_launched [OF l, of w, unfolded oc]
  have s: "list_all is_setup tr0"
    using prepare_setup [of a w] p by simp
  have z: "oc = Exited 0 \<Longrightarrow>
        snd (branch cfg a u w c) = Inr 0 \<and>
        snd (run_train cfg a u w) = Inr () \<and>
        exit_status (run_train cfg a u w) = Some 0 \<and>
        Sock_close \<in> set (fst (run_train cfg a u w)) \<and>
        Log_task_failed \<notin> set (fst (run_train cfg a u w))"
    using setup_not_mem [OF s, of Log_task_failed]
    by (simp add: r b mb finish_success exit_status_simps split: option.splits)
  have k: "oc = Exited K \<Longrightarrow> K \<noteq> 0 \<Longrightarrow>
        snd (branch cfg a u w c) = Inr K \<and>
        snd (run_train cfg a u w) = Inl (Sys_exit (- 1)) \<and>
        exit_status (run_train cfg a u w) = Some 255" for K
    by (simp add: r b mb finish_failure exit_status_simps)
  have f: "oc = Spawn_fault \<Longrightarrow>
        snd (branch cfg a u w c) = Inr (- 1) \<and>
        snd (run_train cfg a u w) = Inl (Sys_exit (- 1)) \<and>
        exit_status (run_train cfg a u w) = Some 255"
    by (simp add: r b mb finish_failure exit_status_simps)
  show ?thesis
    using p z k f by blast
qed

theorem exit_status_matches_workload_witness:
  "snd (run_train example_config example_args [] example_world) = Inl (Sys_exit (- 1)) \<and>
   exit_status (run_train example_config example_args [] example_world) = Some 255 \<and>
   snd (run_train example_config example_args []
          (example_world\<lparr>proc := \<lambda>cmd. Exited 0\<rparr>)) = Inr () \<and>
   exit_status (run_train example_config example_args []
          (example_world\<lparr>proc := \<lambda>cmd. Exited 0\<rparr>)) = Some 0"
proof -
  have h: "index_of (hosts (sm_dist_env example_args)) (current_host (sm_dist_env example_args)) = Some 0"
    "resolve_hosts (gethostbyname (example_world\<lparr>proc := p\<rparr>)) (hosts (sm_dist_env example_args))
       = Some [''10.0.0.1'', ''10.0.0.2'', ''10.0.0.3'']"
    "length (hosts (sm_dist_env example_args)) - 1 \<le> length (incoming (example_world\<lparr>proc := p\<rparr>))"
    "environ (example_world\<lparr>proc := p\<rparr>) ''LD_LIBRARY_PATH'' = Some ''/usr/lib''"
    "custom_script example_args \<noteq> None \<or> task_type example_args \<in> set (builtin_tasks example_config)"
    for p
    by (simp_all add: example_args_def example_env_def example_world_def example_config_def
        builtin_tasks_def)
  have e: "example_world\<lparr>proc := \<lambda>cmd. Exited 1\<rparr> = example_world"
    by (simp add: example_world_def)
  have p1: "\<forall>cmd. proc (example_world\<lparr>proc := \<lambda>cmd. Exited 1\<rparr>) cmd = Exited 1"
    and p0: "\<forall>cmd. proc (example_world\<lparr>proc := \<lambda>cmd. Exited 0\<rparr>) cmd = Exited 0"
    by simp_all
  from exit_status_matches_workload [where u = "[]", OF h p1]
       exit_status_matches_workload [where u = "[]", OF h p0]
  show ?thesis
    unfolding e by auto
qed

subsection \<open>Workers do not inherit the workload's result\<close>

text \<open>
  Claim C6. A worker (rank other than 0) whose socket got connected leaves
  \<^verbatim>\<open>err_code\<close> at 0: its branch is \<^verbatim>\<open>barrier\<close>, \<^verbatim>\<open>wait_for_exit\<close> and a log line, it
  closes the socket only after \<^verbatim>\<open>wait_for_exit\<close>, never reads a result queue, and
  \<^verbatim>\<open>run_train\<close> returns, so the process ends with status 0, whatever the child process
  of the master does. The master of a failed workload, in contrast, ends with a nonzero
  status.
\<close>

theorem worker_exits_zero:
  assumes "index_of (hosts (sm_dist_env a)) (current_host (sm_dist_env a)) = Some r"
    and "r \<noteq> 0"
    and "resolve_hosts (gethostbyname w) (hosts (sm_dist_env a)) = Some ips"
    and "\<exists>k<30. connect_ok w k"
  shows "(\<exists>tr0 c. prepare a w = (tr0, Inr c) \<and> host_rank c = r \<and> connected c \<and>
            branch cfg a u w c = ([Barrier_worker, Wait_for_exit, Log_worker_end], Inr 0)) \<and>
         (\<forall>p. run_train cfg a u (w\<lparr>proc := p\<rparr>) = run_train cfg a u w) \<and>
         snd (run_train cfg a u w) = Inr () \<and>
         exit_status (run_train cfg a u w) = Some 0 \<and>
         Sock_close \<in> set (fst (run_train cfg a u w)) \<and>
         not_before (\<lambda>e. e = Sock_close) (\<lambda>e. e = Wait_for_exit) (fst (run_train cfg a u w)) \<and>
         \<not> list_ex is_state_q_get (fst (run_train cfg a u w)) \<and>
         (\<forall>a' w' ips' ld oc.
            index_of (hosts (sm_dist_env a')) (current_host (sm_dist_env a')) = Some 0 \<and>
            resolve_hosts (gethostbyname w') (hosts (sm_dist_env a')) = Some ips' \<and>
            length (hosts (sm_dist_env a')) - 1 \<le> length (incoming w') \<and>
            environ w' ''LD_LIBRARY_PATH'' = Some ld \<and>
            (custom_script a' \<noteq> None \<or> task_type a' \<in> set (builtin_tasks cfg)) \<and>
            (\<forall>cmd. proc w' cmd = oc) \<and> oc \<noteq> Exited 0 \<longrightarrow>
            exit_status (run_train cfg a' u w') = Some 255)"
proof -
  from prepare_worker [OF assms(1-3)]
  obtain tr0 c where p: "prepare a w = (tr0, Inr c)" and hr: "host_rank c = r"
    and co: "connected c = snd (connect_loop [0..<30] (connect_ok w))"
    by blast
  have "\<exists>k \<in> set [0..<30]. connect_ok w k"
    using assms(4) by auto
  from connect_loop_succeeds [OF this] have conn: "connected c"
    using co by simp
  have nz: "host_rank c \<noteq> 0"
    using hr assms(2) by simp
  have b: "branch cfg a u w c = ([Barrier_worker, Wait_for_exit, Log_worker_end], Inr 0)"
    using nz by (simp add: branch_def worker_branch_eq)
  note r = worker_run [OF p nz, of cfg u]
  have s: "list_all is_setup tr0"
    using prepare_setup [of a w] p by simp
  have indep: "run_train cfg a u (w\<lparr>proc := p'\<rparr>) = run_train cfg a u w" for p'
  proof -
    have "prepare a (w\<lparr>proc := p'\<rparr>) = (tr0, Inr c)"
      using p by (simp add: prepare_ignores_proc)
    from worker_run [OF this nz, of cfg u] show ?thesis
      by (simp add: r finish_ignores_proc)
  qed
  have closes: "Sock_close \<in> set (fst (run_train cfg a u w))"
    by (simp add: r finish_success)
  have "not_before (\<lambda>e. e = Sock_close) (\<lambda>e. e = Wait_for_exit) (tr0 @ tr)
          = not_before (\<lambda>e. e = Sock_close) (\<lambda>e. e = Wait_for_exit) tr" for tr
    by (rule not_before_setup [OF s]) auto
  then have order:
    "not_before (\<lambda>e. e = Sock_close) (\<lambda>e. e = Wait_for_exit) (fst (run_train cfg a u w))"
    by (simp add: r) (simp add: not_before_def)
  have noget: "\<not> list_ex is_state_q_get (fst (run_train cfg a u w))"
    using setup_no_get [OF s] by (simp add: r finish_success split: option.splits)
  have master: "exit_status (run_train cfg a' u w') = Some 255"
    if "index_of (hosts (sm_dist_env a')) (current_host (sm_dist_env a')) = Some 0"
      "resolve_hosts (gethostbyname w') (hosts (sm_dist_env a')) = Some ips'"
      "length (hosts (sm_dist_env a')) - 1 \<le> length (incoming w')"
      "environ w' ''LD_LIBRARY_PATH'' = Some ld"
      "custom_script a' \<noteq> None \<or> task_type a' \<in> set (builtin_tasks cfg)"
      "\<forall>cmd. proc w' cmd = oc" "oc \<noteq> Exited 0" for a' w' ips' ld oc
    using master_failed_workload [OF that, of u] by (simp add: exit_status_def)
  have "snd (run_train cfg a u w) = Inr ()" "exit_status (run_train cfg a u w) = Some 0"
    by (simp_all add: r exit_status_def)
  then show ?thesis
    using p hr conn b indep closes order noget master by blast
qed


theorem worker_exits_zero_witness:
  "snd (run_train example_config
          (example_args\<lparr>sm_dist_env := example_env\<lparr>current_host := ''algo-2''\<rparr>\<rparr>) []
          example_world) = Inr () \<and>
   exit_status (run_train example_config
          (example_args\<lparr>sm_dist_env := example_env\<lparr>current_host := ''algo-2''\<rparr>\<rparr>) []
          example_world) = Some 0 \<and>
   exit_status (run_train example_config example_args [] example_world) = Some 255"
proof -
  let ?a = "example_args\<lparr>sm_dist_env := example_env\<lparr>current_host := ''algo-2''\<rparr>\<rparr>"
  have h: "index_of (hosts (sm_dist_env ?a)) (current_host (sm_dist_env ?a)) = Some (Suc 0)"
    "Suc 0 \<noteq> 0"
    "resolve_hosts (gethostbyname example_world) (hosts (sm_dist_env ?a))
       = Some [''10.0.0.1'', ''10.0.0.2'', ''10.0.0.3'']"
    by (simp_all add: example_args_def example_env_def example_world_def)
  have "connect_ok example_world 2"
    by (simp add: example_world_def)
  then have k: "\<exists>k<30. connect_ok example_world k"
    by (intro exI [of _ 2]) simp
  note t = worker_exits_zero [OF h k, of example_config "[]"]
  have m: "index_of (hosts (sm_dist_env example_args)) (current_host (sm_dist_env example_args)) = Some 0 \<and>
    resolve_hosts (gethostbyname example_world) (hosts (sm_dist_env example_args))
       = Some [''10.0.0.1'', ''10.0.0.2'', ''10.0.0.3''] \<and>
    length (hosts (sm_dist_env example_args)) - 1 \<le> length (incoming example_world) \<and>
    environ example_world ''LD_LIBRARY_PATH'' = Some ''/usr/lib'' \<and>
    (custom_script example_args \<noteq> None \<or> task_type example_args \<in> set (builtin_tasks example_config)) \<and>
    (\<forall>cmd. proc example_world cmd = Exited 1) \<and> Exited 1 \<noteq> Exited 0"
    by (simp add: example_args_def example_env_def example_world_def example_config_def
        builtin_tasks_def)
  from t have "\<forall>a' w' ips' ld oc.
            index_of (hosts (sm_dist_env a')) (current_host (sm_dist_env a')) = Some 0 \<and>
            resolve_hosts (gethostbyname w') (hosts (sm_dist_env a')) = Some ips' \<and>
            length (hosts (sm_dist_env a')) - 1 \<le> length (incoming w') \<and>
            environ w' ''LD_LIBRARY_PATH'' = Some ld \<and>
            (custom_script a' \<noteq> None \<or> task_type a' \<in> set (builtin_tasks example_config)) \<and>
            (\<forall>cmd. proc w' cmd = oc) \<and> oc \<noteq> Exited 0 \<longrightarrow>
            exit_status (run_train example_config a' [] w') = Some 255"
    by blast
  from this [rule_format, OF m] t show ?thesis
    by blast
qed

subsection \<open>When the artifacts are uploaded\<close>

text \<open>
  Claim C7. \<^verbatim>\<open>upload_model_artifacts\<close> is called exactly when \<^verbatim>\<open>run_train\<close> reaches its
  last statement (which needs an error code of 0: a nonzero one leaves through
  \<^verbatim>\<open>sys.exit\<close> before), \<^verbatim>\<open>model_artifact_s3\<close> was given and is not empty once its
  trailing slashes are stripped, and the save path under \<^verbatim>\<open>/tmp/gsgnn_model/\<close> exists.
  Hence an upload implies a configured destination and an error code of 0; without a
  configured destination, and on every path that ends in an exit, an exception or a
  blocked call, there is no upload.
\<close>

theorem upload_only_on_success_with_destination:
  "(list_ex is_upload (fst (run_train cfg a u w)) \<longleftrightarrow>
      snd (run_train cfg a u w) = Inr () \<and>
      (\<exists>s. model_artifact_s3 a = Some s \<and> rstrip_slash s \<noteq> []) \<and>
      path_exists w ''/tmp/gsgnn_model/model_checkpoint'') \<and>
   (list_ex is_upload (fst (run_train cfg a u w)) \<longrightarrow>
      truthy (model_artifact_s3 a) \<and>
      (\<exists>tr0 c. prepare a w = (tr0, Inr c) \<and> snd (branch cfg a u w c) = Inr 0)) \<and>
   (\<not> truthy (model_artifact_s3 a) \<longrightarrow> \<not> list_ex is_upload (fst (run_train cfg a u w))) \<and>
   (\<forall>s. snd (run_train cfg a u w) = Inl s \<longrightarrow> \<not> list_ex is_upload (fst (run_train cfg a u w)))"
proof -
  let ?up = "list_ex is_upload (fst (run_train cfg a u w))"
  let ?dest = "\<exists>s. model_artifact_s3 a = Some s \<and> rstrip_slash s \<noteq> []"
  have tr: "?dest \<Longrightarrow> truthy (model_artifact_s3 a)"
    by (auto simp add: truthy_def)
  have main: "(?up \<longleftrightarrow> snd (run_train cfg a u w) = Inr () \<and> ?dest \<and>
                 path_exists w ''/tmp/gsgnn_model/model_checkpoint'') \<and>
              (?up \<longrightarrow> (\<exists>tr0 c. prepare a w = (tr0, Inr c) \<and> snd (branch cfg a u w c) = Inr 0))"
  proof (cases rule: run_train_cases [of a w cfg u])
    case (prepare_stops tr0 s)
    have "list_all is_setup tr0"
      using prepare_setup [of a w] prepare_stops(1) by simp
    from setup_no_upload [OF this] show ?thesis
      by (simp add: prepare_stops(2))
  next
    case (branch_stops tr0 c tr1 s)
    have "list_all is_setup tr0"
      using prepare_setup [of a w] branch_stops(1) by simp
    from setup_no_upload [OF this] branch_no_upload [of cfg a u w c] show ?thesis
      by (simp add: branch_stops(2,3))
  next
    case (finishes tr0 c tr1 ec)
    have "list_all is_setup tr0"
      using prepare_setup [of a w] finishes(1) by simp
    from setup_no_upload [OF this] branch_no_upload [of cfg a u w c]
    have up: "?up \<longleftrightarrow> list_ex is_upload (fst (finish w c ec))"
      by (simp add: finishes(2,3))
    have gs: "(\<exists>dest. gs_model_artifact_s3 c = Some dest \<and> dest \<noteq> []) \<longleftrightarrow> ?dest"
      unfolding prepare_ctx(5) [OF finishes(1)]
      by (cases "model_artifact_s3 a") (auto simp add: truthy_def)
    have sp: "?dest \<Longrightarrow> save_model_path c = ''/tmp/gsgnn_model/model_checkpoint''"
      unfolding prepare_ctx(4) [OF finishes(1)]
      using tr by (simp add: save_path_tmp)
    show ?thesis
      unfolding up finish_upload_iff gs
      using sp finishes(1) by (auto simp add: finishes(2,3) finish_returns_iff)
  qed
  show ?thesis
    using main tr by auto
qed

theorem upload_only_on_success_with_destination_witness:
  "list_ex is_upload (fst (run_train example_config example_args []
      (example_world\<lparr>proc := \<lambda>cmd. Exited 0\<rparr>))) \<and>
   \<not> list_ex is_upload (fst (run_train example_config example_args [] example_world)) \<and>
   \<not> list_ex is_upload (fst (run_train example_config
        (example_args\<lparr>model_artifact_s3 := None\<rparr>) []
        (example_world\<lparr>proc := \<lambda>cmd. Exited 0\<rparr>)))"
proof -
  let ?w = "example_world\<lparr>proc := \<lambda>cmd. Exited 0\<rparr>"
  have r0: "snd (run_train example_config example_args [] ?w) = Inr ()"
    and r1: "snd (run_train example_config example_args [] example_world) = Inl (Sys_exit (- 1))"
    by code_simp+
  have d: "\<exists>s. model_artifact_s3 example_args = Some s \<and> rstrip_slash s \<noteq> []"
    by (simp add: example_args_def rstrip_slash_def)
  have e: "path_exists ?w ''/tmp/gsgnn_model/model_checkpoint''"
    by (simp add: example_world_def)
  have n: "\<not> truthy (model_artifact_s3 (example_args\<lparr>model_artifact_s3 := None\<rparr>))"
    by (simp add: truthy_def)
  from upload_only_on_success_with_destination [of example_config example_args "[]" ?w]
    upload_only_on_success_with_destination [of example_config example_args "[]" example_world]
    upload_only_on_success_with_destination
      [of example_config "example_args\<lparr>model_artifact_s3 := None\<rparr>" "[]" ?w]
    r0 r1 d e n
  show ?thesis
    by simp
qed

subsection \<open>Order of the master's teardown\<close>

text \<open>
  Claim C5, as amended. In every run of the master: \<^verbatim>\<open>terminate_workers\<close> is called only
  after \<^verbatim>\<open>task_end.set()\<close> and after the join of the keep-alive thread, the join only
  after the set, and \<^verbatim>\<open>sock.close()\<close> only after \<^verbatim>\<open>terminate_workers\<close>. A result is
  never taken from the queue once \<^verbatim>\<open>terminate_workers\<close> has been called. In every run in
  which the training thread was started, the result is taken from the queue before
  \<^verbatim>\<open>terminate_workers\<close> is called; in a run in which it was not started, no result is
  taken from the queue at all. A run that ends by returning or by \<^verbatim>\<open>sys.exit\<close> has made
  all four teardown calls.
\<close>

theorem master_teardown_order:
  assumes "index_of (hosts (sm_dist_env a)) (current_host (sm_dist_env a)) = Some 0"
  shows
    "not_before (\<lambda>e. e = Terminate_workers) (\<lambda>e. e = Task_end_set) (fst (run_train cfg a u w)) \<and>
     not_before (\<lambda>e. e = Terminate_workers) (\<lambda>e. e = Keep_alive_join) (fst (run_train cfg a u w)) \<and>
     not_before (\<lambda>e. e = Keep_alive_join) (\<lambda>e. e = Task_end_set) (fst (run_train cfg a u w)) \<and>
     not_before (\<lambda>e. e = Sock_close) (\<lambda>e. e = Terminate_workers) (fst (run_train cfg a u w)) \<and>
     never_after is_state_q_get (\<lambda>e. e = Terminate_workers) (fst (run_train cfg a u w)) \<and>
     (list_ex is_train_thread_start (fst (run_train cfg a u w)) \<longrightarrow>
        not_before (\<lambda>e. e = Terminate_workers) is_state_q_get (fst (run_train cfg a u w))) \<and>
     (\<not> list_ex is_train_thread_start (fst (run_train cfg a u w)) \<longrightarrow>
        \<not> list_ex is_state_q_get (fst (run_train cfg a u w))) \<and>
     (snd (run_train cfg a u w) = Inr () \<or> (\<exists>k. snd (run_train cfg a u w) = Inl (Sys_exit k)) \<longrightarrow>
        Task_end_set \<in> set (fst (run_train cfg a u w)) \<and>
        Keep_alive_join \<in> set (fst (run_train cfg a u w)) \<and>
        Terminate_workers \<in> set (fst (run_train cfg a u w)) \<and>
        Sock_close \<in> set (fst (run_train cfg a u w)))"
proof -
  have "teardown_in_order (fst (run_train cfg a u w)) \<and>
     (\<not> list_ex is_train_thread_start (fst (run_train cfg a u w)) \<longrightarrow>
        \<not> list_ex is_state_q_get (fst (run_train cfg a u w))) \<and>
     (snd (run_train cfg a u w) = Inr () \<or> (\<exists>k. snd (run_train cfg a u w) = Inl (Sys_exit k)) \<longrightarrow>
        Task_end_set \<in> set (fst (run_train cfg a u w)) \<and>
        Keep_alive_join \<in> set (fst (run_train cfg a u w)) \<and>
        Terminate_workers \<in> set (fst (run_train cfg a u w)) \<and>
        Sock_close \<in> set (fst (run_train cfg a u w)))"
    using assms
  proof (cases rule: master_run_shapes [where cfg = cfg and u = u and w = w])
    case (stopped tr0 s)
    have "teardown_in_order (tr0 @ [])"
      unfolding teardown_in_order_setup [OF stopped(2)]
      by (simp add: teardown_in_order_def not_before_def never_after_def)
    then show ?thesis
      using stopped(3) setup_no_get [OF stopped(2)] by (simp add: stopped(1))
  next
    case (propagated tr0 e)
    show ?thesis
      using setup_no_get [OF propagated(2)]
      unfolding propagated(1) fst_conv teardown_in_order_setup [OF propagated(2)]
      by (simp add: teardown_in_order_def not_before_def never_after_def)
  next
    case (rejected tr0 msg)
    show ?thesis
      using setup_no_get [OF rejected(2)]
      unfolding rejected(1) fst_conv teardown_in_order_setup [OF rejected(2)]
      by (simp add: teardown_in_order_def not_before_def never_after_def)
  next
    case (launched tr0 cmd v fin r)
    show ?thesis
      unfolding launched(1) fst_conv teardown_in_order_setup [OF launched(2)]
      using launched(3)
      by (auto simp add: teardown_in_order_def not_before_def never_after_def)
  qed
  then show ?thesis
    unfolding teardown_in_order_def by (simp split: if_splits)
qed


theorem master_teardown_order_witness:
  "not_before (\<lambda>e. e = Terminate_workers) (\<lambda>e. e = Task_end_set)
     (fst (run_train example_config example_args [] example_world)) \<and>
   not_before (\<lambda>e. e = Terminate_workers) (\<lambda>e. e = Keep_alive_join)
     (fst (run_train example_config example_args [] example_world)) \<and>
   not_before (\<lambda>e. e = Sock_close) (\<lambda>e. e = Terminate_workers)
     (fst (run_train example_config example_args [] example_world)) \<and>
   not_before (\<lambda>e. e = Terminate_workers) is_state_q_get
     (fst (run_train example_config example_args [] example_world)) \<and>
   Terminate_workers \<in> set (fst (run_train example_config example_args [] example_world)) \<and>
   Sock_close \<in> set (fst (run_train example_config example_args [] example_world))"
proof -
  have h: "index_of (hosts (sm_dist_env example_args)) (current_host (sm_dist_env example_args)) = Some 0"
    by (simp add: example_args_def example_env_def)
  have r: "snd (run_train example_config example_args [] example_world) = Inl (Sys_exit (- 1))"
    and t: "list_ex is_train_thread_start (fst (run_train example_config example_args [] example_world))"
    by code_simp+
  from master_teardown_order [OF h, of example_config "[]" example_world] r t show ?thesis
    by simp
qed

text \<open>
  The claim as it was stated puts the read of the result queue before
  \<^verbatim>\<open>terminate_workers\<close> in every run of the master. When \<^verbatim>\<open>launch_train_task\<close> raises
  \<^verbatim>\<open>RuntimeError\<close> (here: the task type \<^verbatim>\<open>clustering\<close>, which is none of the builtin
  ones), the handler sets \<^verbatim>\<open>err_code\<close> and the master calls \<^verbatim>\<open>terminate_workers\<close>
  although \<^verbatim>\<open>state_q.get()\<close> was never reached.
\<close>

theorem terminate_without_result_counterexample:
  "index_of (hosts (sm_dist_env (example_args\<lparr>task_type := ''clustering''\<rparr>)))
     (current_host (sm_dist_env (example_args\<lparr>task_type := ''clustering''\<rparr>))) = Some 0 \<and>
   Terminate_workers \<in> set (fst (run_train example_config
       (example_args\<lparr>task_type := ''clustering''\<rparr>) [] example_world)) \<and>
   \<not> list_ex is_state_q_get (fst (run_train example_config
       (example_args\<lparr>task_type := ''clustering''\<rparr>) [] example_world)) \<and>
   \<not> not_before (\<lambda>e. e = Terminate_workers) is_state_q_get
       (fst (run_train example_config
          (example_args\<lparr>task_type := ''clustering''\<rparr>) [] example_world))"
  by code_simp

subsection \<open>A RuntimeError in the master's try block\<close>

text \<open>
  Claim C2, as amended. The handler of the \<^verbatim>\<open>try\<close> statement names \<^verbatim>\<open>RuntimeError\<close>.
  When \<^verbatim>\<open>launch_train_task\<close> raises it (no custom script, and a task type that is none
  of the builtin ones), the master catches it, prints it, sets \<^verbatim>\<open>err_code\<close> to \<open>-1\<close>, and
  then sets \<^verbatim>\<open>task_end\<close>, joins the keep-alive thread, calls \<^verbatim>\<open>terminate_workers\<close>,
  closes the socket and leaves through \<^verbatim>\<open>sys.exit(-1)\<close>.
\<close>

theorem runtime_error_caught_teardown_runs:
  assumes "index_of (hosts (sm_dist_env a)) (current_host (sm_dist_env a)) = Some 0"
    and "resolve_hosts (gethostbyname w) (hosts (sm_dist_env a)) = Some ips"
    and "length (hosts (sm_dist_env a)) - 1 \<le> length (incoming w)"
    and "custom_script a = None"
    and "task_type a \<notin> set (builtin_tasks cfg)"
  shows "\<exists>tr0 c. prepare a w = (tr0, Inr c) \<and>
     launch_of cfg a u c = Inl (RuntimeError (Unsupported_task_type (task_type a))) \<and>
     master_branch cfg a u w c =
       ([Barrier_master, Keep_alive_start,
         Print_exn (RuntimeError (Unsupported_task_type (task_type a))),
         Task_end_set, Keep_alive_join, Terminate_workers, Log_master_end],
        Inr (- 1)) \<and>
     run_train cfg a u w =
       (tr0 @ [Barrier_master, Keep_alive_start,
               Print_exn (RuntimeError (Unsupported_task_type (task_type a))),
               Task_end_set, Keep_alive_join, Terminate_workers, Log_master_end,
               Sock_close, Log_task_failed],
        Inl (Sys_exit (- 1)))"
proof -
  from prepare_master_returns [OF assms(1-3)]
  obtain tr0 c where p: "prepare a w = (tr0, Inr c)" and hr: "host_rank c = 0"
    by blast
  note l = launch_of_unsupported [OF assms(4,5), where u = u and c = c]
  from p l master_branch_runtime_error [OF l, of w] master_run_runtime_error [OF p hr l]
  show ?thesis
    by blast
qed

theorem runtime_error_caught_teardown_runs_witness:
  "snd (run_train example_config (example_args\<lparr>task_type := ''clustering''\<rparr>) [] example_world)
     = Inl (Sys_exit (- 1)) \<and>
   Terminate_workers \<in> set (fst (run_train example_config
       (example_args\<lparr>task_type := ''clustering''\<rparr>) [] example_world)) \<and>
   Sock_close \<in> set (fst (run_train example_config
       (example_args\<lparr>task_type := ''clustering''\<rparr>) [] example_world))"
proof -
  let ?a = "example_args\<lparr>task_type := ''clustering''\<rparr>"
  have h: "index_of (hosts (sm_dist_env ?a)) (current_host (sm_dist_env ?a)) = Some 0"
    "resolve_hosts (gethostbyname example_world) (hosts (sm_dist_env ?a))
       = Some [''10.0.0.1'', ''10.0.0.2'', ''10.0.0.3'']"
    "length (hosts (sm_dist_env ?a)) - 1 \<le> length (incoming example_world)"
    "custom_script ?a = None"
    "task_type ?a \<notin> set (builtin_tasks example_config)"
    by (simp_all add: example_args_def example_env_def example_world_def example_config_def
        builtin_tasks_def)
  from runtime_error_caught_teardown_runs [OF h, of "[]"] show ?thesis
    by auto
qed

text \<open>
  The claim as it was stated speaks of every exception. With \<^verbatim>\<open>LD_LIBRARY_PATH\<close>
  missing from the environment, \<^verbatim>\<open>launch_train_task\<close> raises \<^verbatim>\<open>KeyError\<close>, which the
  handler does not name: it leaves \<^verbatim>\<open>run_train\<close>, and none of the teardown calls is
  made.
\<close>

theorem key_error_propagates_counterexample:
  "snd (run_train example_config example_args [] (example_world\<lparr>environ := Map.empty\<rparr>))
     = Inl (Raised (KeyError ''LD_LIBRARY_PATH'')) \<and>
   Task_end_set \<notin> set (fst (run_train example_config example_args []
       (example_world\<lparr>environ := Map.empty\<rparr>))) \<and>
   Keep_alive_join \<notin> set (fst (run_train example_config example_args []
       (example_world\<lparr>environ := Map.empty\<rparr>))) \<and>
   Terminate_workers \<notin> set (fst (run_train example_config example_args []
       (example_world\<lparr>environ := Map.empty\<rparr>))) \<and>
   Sock_close \<notin> set (fst (run_train example_config example_args []
       (example_world\<lparr>environ := Map.empty\<rparr>)))"
  by code_simp

subsection \<open>A worker that never reaches the master\<close>

text \<open>
  Claim C3. The worker tries to connect 30 times and sleeps ten seconds after each
  failure, as the claim says. But when all 30 attempts fail, the loop
  \<^verbatim>\<open>for _ in range(30)\<close> simply ends: the code logs ``Connected to'' and goes on, with
  a socket that is not connected, to write the address list, to the downloads and to
  \<^verbatim>\<open>barrier(sock)\<close>. Nothing in the connect code exits or raises. The theorem evaluates
  the model for the worker \<^verbatim>\<open>algo-2\<close> when every attempt is refused.
\<close>

theorem worker_connect_exhausted_goes_on:
  "worker_connect (example_world\<lparr>connect_ok := \<lambda>k. False\<rparr>) =
     (concat (replicate 30 [Sock_connect False, Log_trying_to_connect, Sleep_ms 10000])
        @ [Log_connected], Inr False) \<and>
   (\<exists>tr0 c. prepare (example_args\<lparr>sm_dist_env := example_env\<lparr>current_host := ''algo-2''\<rparr>\<rparr>)
               (example_world\<lparr>connect_ok := \<lambda>k. False\<rparr>) = (tr0, Inr c) \<and>
             \<not> connected c \<and>
             branch example_config
               (example_args\<lparr>sm_dist_env := example_env\<lparr>current_host := ''algo-2''\<rparr>\<rparr>) []
               (example_world\<lparr>connect_ok := \<lambda>k. False\<rparr>) c
             = ([Barrier_worker, Wait_for_exit, Log_worker_end], Inr 0))"
proof -
  let ?a = "example_args\<lparr>sm_dist_env := example_env\<lparr>current_host := ''algo-2''\<rparr>\<rparr>"
  let ?w = "example_world\<lparr>connect_ok := \<lambda>k. False\<rparr>"
  have f: "connect_loop [0..<30] (\<lambda>k. False) =
     (concat (map (\<lambda>k. [Sock_connect False, Log_trying_to_connect, Sleep_ms 10000]) [0..<30]), False)"
    by (rule connect_loop_fails) simp
  have m: "map (\<lambda>k. [Sock_connect False, Log_trying_to_connect, Sleep_ms 10000]) [0..<30]
           = replicate 30 [Sock_connect False, Log_trying_to_connect, Sleep_ms 10000]"
    by (simp add: map_replicate_const [of _ "[0..<30]", simplified])
  have wc: "worker_connect ?w =
     (concat (replicate 30 [Sock_connect False, Log_trying_to_connect, Sleep_ms 10000])
        @ [Log_connected], Inr False)"
    by (simp add: worker_connect_def f m)
  have h: "index_of (hosts (sm_dist_env ?a)) (current_host (sm_dist_env ?a)) = Some (Suc 0)"
    "Suc 0 \<noteq> 0"
    "resolve_hosts (gethostbyname ?w) (hosts (sm_dist_env ?a))
       = Some [''10.0.0.1'', ''10.0.0.2'', ''10.0.0.3'']"
    by (simp_all add: example_args_def example_env_def example_world_def)
  from prepare_worker [OF h]
  obtain tr0 c where p: "prepare ?a ?w = (tr0, Inr c)" and hr: "host_rank c = Suc 0"
    and co: "connected c = snd (connect_loop [0..<30] (connect_ok ?w))"
    by blast
  have "\<not> connected c"
    using co f by simp
  moreover have "branch example_config ?a [] ?w c = ([Barrier_worker, Wait_for_exit, Log_worker_end], Inr 0)"
    using hr by (simp add: branch_def worker_branch_eq)
  ultimately show ?thesis
    using wc p by blast
qed


end
